theory Spec2Isabelle
  imports Main "HOL-Library.Sublist"
begin

section \<open>JavaScript strings\<close>

text \<open>
  A JavaScript string is a sequence of code units. The model uses \<^typ>\<open>string\<close>: one
  \<^typ>\<open>char\<close> is one code unit below 256. All patterns of the program are ASCII.
\<close>

text \<open>
  The class \<^verbatim>\<open>\s\<close> of a regular expression, which is also what \<^verbatim>\<open>trim\<close> removes:
  TAB, LF, VT, FF, CR, SPACE and NBSP are its members below 256.
\<close>

definition is_space :: "char \<Rightarrow> bool" where
  "is_space c = (of_char c \<in> {9, 10, 11, 12, 13, 32, 160 :: nat})"

text \<open>The line terminators, which \<^verbatim>\<open>.\<close> does not match: LF and CR below 256.\<close>

definition is_line_terminator :: "char \<Rightarrow> bool" where
  "is_line_terminator c = (of_char c \<in> {10, 13 :: nat})"

text \<open>\<^verbatim>\<open>String.prototype.trim\<close>.\<close>

definition trim :: "string \<Rightarrow> string" where
  "trim s = rev (dropWhile is_space (rev (dropWhile is_space s)))"

text \<open>\<^verbatim>\<open>.replace(/\s+/g, "")\<close>: every run of white space is deleted.\<close>

definition remove_spaces :: "string \<Rightarrow> string" where
  "remove_spaces s = filter (\<lambda>c. \<not> is_space c) s"

text \<open>\<^verbatim>\<open>.replace(/\/+$/, "")\<close>: the run of slashes at the end of the string is deleted.\<close>

definition strip_trailing_slashes :: "string \<Rightarrow> string" where
  "strip_trailing_slashes s = rev (dropWhile (\<lambda>c. c = CHR ''/'') (rev s))"

text \<open>\<^verbatim>\<open>.split(sep)\<close> for a separator of one code unit; never the empty list.\<close>

fun split_at :: "char \<Rightarrow> string \<Rightarrow> string list" where
  "split_at sep [] = [[]]"
| "split_at sep (c # cs) =
     (if c = sep then [] # split_at sep cs
      else (case split_at sep cs of
              seg # segs \<Rightarrow> (c # seg) # segs
            | [] \<Rightarrow> [[c]]))"

text \<open>\<^verbatim>\<open>.split("/").pop()\<close>: the last segment.\<close>

definition last_segment :: "string \<Rightarrow> string" where
  "last_segment s = last (split_at CHR ''/'' s)"

text \<open>
  Case-insensitive matching (flag \<^verbatim>\<open>i\<close>, no flag \<^verbatim>\<open>u\<close>) compares canonicalised code
  units. For an ASCII pattern only the letters \<^verbatim>\<open>A-Z\<close> and \<^verbatim>\<open>a-z\<close> fold together: no
  code unit above 127 canonicalises to an ASCII one.
\<close>

definition lower_ascii :: "char \<Rightarrow> char" where
  "lower_ascii c =
     (let n = (of_char c :: nat) in if 65 \<le> n \<and> n \<le> 90 then char_of (n + 32) else c)"

text \<open>The pattern \<open>p\<close> matches at the start of \<open>s\<close>, letters compared without case.\<close>

definition starts_ci :: "string \<Rightarrow> string \<Rightarrow> bool" where
  "starts_ci p s = (length p \<le> length s \<and> map lower_ascii (take (length p) s) = map lower_ascii p)"

text \<open>The pattern \<open>p\<close> matches somewhere in \<open>s\<close>, letters compared without case.\<close>

fun contains_ci :: "string \<Rightarrow> string \<Rightarrow> bool" where
  "contains_ci p [] = starts_ci p []"
| "contains_ci p (c # cs) = (starts_ci p (c # cs) \<or> contains_ci p cs)"

text \<open>
  \<^verbatim>\<open>/a.*b/i.test(s)\<close> for literal \<open>a\<close> and \<open>b\<close>: somewhere \<open>a\<close> matches, and \<open>b\<close> matches
  later with no line terminator between the two.
\<close>

fun dotstar_ci :: "string \<Rightarrow> string \<Rightarrow> string \<Rightarrow> bool" where
  "dotstar_ci a b [] =
     (starts_ci a [] \<and> contains_ci b [])"
| "dotstar_ci a b (c # cs) =
     ((starts_ci a (c # cs) \<and>
       contains_ci b (takeWhile (\<lambda>x. \<not> is_line_terminator x) (drop (length a) (c # cs))))
      \<or> dotstar_ci a b cs)"

text \<open>
  \<^verbatim>\<open>/https?:\/\/\<close> at the start of \<open>s\<close>: the number of code units it takes. After
  \<^verbatim>\<open>http\<close> the optional \<^verbatim>\<open>s\<close> is decided by the next code unit, so no backtracking
  is needed. \<open>ci\<close> is the flag \<^verbatim>\<open>i\<close>.
\<close>

definition url_head :: "bool \<Rightarrow> string \<Rightarrow> nat option" where
  "url_head ci s =
     (let starts = (if ci then starts_ci else prefix) in
      if starts ''https://'' s then Some 8
      else if starts ''http://'' s then Some 7
      else None)"

text \<open>
  \<^verbatim>\<open>\S+\)\<close> on a run of non-space code units: \<^verbatim>\<open>\S+\<close> is greedy and gives back until a
  closing parenthesis follows, so it stops before the last \<^verbatim>\<open>)\<close> of the run that is not
  its first code unit. The result is the length \<^verbatim>\<open>\S+\<close> takes.
\<close>

definition last_close :: "string \<Rightarrow> nat option" where
  "last_close run =
     (case filter (\<lambda>k. run ! k = CHR '')'') (rev [1..<length run]) of
        [] \<Rightarrow> None
      | k # _ \<Rightarrow> Some k)"

text \<open>\<^verbatim>\<open>/\(short URL: (https?:\/\/\S+)\)/i\<close> matched at the start of \<open>s\<close>: group 1.\<close>

definition short_url_at :: "string \<Rightarrow> string option" where
  "short_url_at s =
     (if starts_ci ''(short URL: '' s then
        (let r = drop 12 s in
         case url_head True r of
           None \<Rightarrow> None
         | Some h \<Rightarrow>
             (case last_close (takeWhile (\<lambda>c. \<not> is_space c) (drop h r)) of
                None \<Rightarrow> None
              | Some k \<Rightarrow> Some (take (h + k) r)))
      else None)"

text \<open>
  \<^verbatim>\<open>s.match(/\(short URL: (https?:\/\/\S+)\)/i)\<close>: group 1 of the leftmost match,
  \<open>None\<close> when \<^verbatim>\<open>match\<close> returns \<^verbatim>\<open>null\<close>.
\<close>

fun short_url_match :: "string \<Rightarrow> string option" where
  "short_url_match [] = None"
| "short_url_match (c # cs) =
     (case short_url_at (c # cs) of
        Some m \<Rightarrow> Some m
      | None \<Rightarrow> short_url_match cs)"

text \<open>\<^verbatim>\<open>/https?:\/\/\S+/\<close> matched at the start of \<open>s\<close>: the whole match.\<close>

definition http_url_at :: "string \<Rightarrow> string option" where
  "http_url_at s =
     (case url_head False s of
        None \<Rightarrow> None
      | Some h \<Rightarrow>
          (let run = takeWhile (\<lambda>c. \<not> is_space c) (drop h s) in
           if run = [] then None else Some (take (h + length run) s)))"

text \<open>\<^verbatim>\<open>s.match(/https?:\/\/\S+/)\<close>: the leftmost match.\<close>

fun http_url_match :: "string \<Rightarrow> string option" where
  "http_url_match [] = None"
| "http_url_match (c # cs) =
     (case http_url_at (c # cs) of
        Some m \<Rightarrow> Some m
      | None \<Rightarrow> http_url_match cs)"

text \<open>The decimal text of a natural number, as a template literal prints an HTTP status.\<close>

fun string_of_nat :: "nat \<Rightarrow> string" where
  "string_of_nat n =
     (if n < 10 then [char_of (48 + n)]
      else string_of_nat (n div 10) @ [char_of (48 + n mod 10)])"

declare string_of_nat.simps [simp del]

section \<open>JavaScript values\<close>

text \<open>
  The values that \<^verbatim>\<open>JSON.parse\<close> and the structured clone of a message produce. A number
  is kept as the text \<^verbatim>\<open>String\<close> prints for it (\<^verbatim>\<open>200\<close>, \<^verbatim>\<open>0.5\<close>, \<^verbatim>\<open>NaN\<close>): the program
  only prints numbers, tests them for truth and compares one with \<^verbatim>\<open>200\<close>, and all three
  are functions of that text. An object is the list of its own properties.
\<close>

datatype jsval =
    JUndefined
  | JNull
  | JBool bool
  | JNum string
  | JStr string
  | JArr "jsval list"
  | JObj "(string \<times> jsval) list"

text \<open>ToBoolean: what \<^verbatim>\<open>if (v)\<close>, \<^verbatim>\<open>!v\<close>, \<^verbatim>\<open>v && w\<close> and \<^verbatim>\<open>v || w\<close> test.\<close>

fun js_truthy :: "jsval \<Rightarrow> bool" where
  "js_truthy JUndefined = False"
| "js_truthy JNull = False"
| "js_truthy (JBool b) = b"
| "js_truthy (JNum t) = (t \<noteq> ''0'' \<and> t \<noteq> ''NaN'')"
| "js_truthy (JStr s) = (s \<noteq> [])"
| "js_truthy (JArr _) = True"
| "js_truthy (JObj _) = True"

text \<open>\<^verbatim>\<open>v || w\<close> and \<^verbatim>\<open>v ?? w\<close>.\<close>

definition js_or :: "jsval \<Rightarrow> jsval \<Rightarrow> jsval" where
  "js_or v w = (if js_truthy v then v else w)"

definition js_nullish :: "jsval \<Rightarrow> bool" where
  "js_nullish v = (v = JUndefined \<or> v = JNull)"

definition js_coalesce :: "jsval \<Rightarrow> jsval \<Rightarrow> jsval" where
  "js_coalesce v w = (if js_nullish v then w else v)"

text \<open>\<^verbatim>\<open>Array.prototype.join\<close> with the separator \<^verbatim>\<open>,\<close> on texts already converted.\<close>

fun join_comma :: "string list \<Rightarrow> string" where
  "join_comma [] = []"
| "join_comma [s] = s"
| "join_comma (s # t # ts) = s @ '','' @ join_comma (t # ts)"

text \<open>
  ToString: \<^verbatim>\<open>String(v)\<close>, a template literal, string concatenation and the argument of
  \<^verbatim>\<open>RegExp.prototype.test\<close>. An array joins its elements with commas, \<^verbatim>\<open>null\<close> and
  \<^verbatim>\<open>undefined\<close> elements printing as nothing; an object prints as \<^verbatim>\<open>[object Object]\<close>.
  An object that has a property of its own named \<^verbatim>\<open>toString\<close> or \<^verbatim>\<open>valueOf\<close> is outside
  the model: there the conversion raises a TypeError.
\<close>

fun js_ToString :: "jsval \<Rightarrow> string" where
  "js_ToString JUndefined = ''undefined''"
| "js_ToString JNull = ''null''"
| "js_ToString (JBool b) = (if b then ''true'' else ''false'')"
| "js_ToString (JNum t) = t"
| "js_ToString (JStr s) = s"
| "js_ToString (JArr vs) =
     join_comma (map (\<lambda>v. if v = JUndefined \<or> v = JNull then [] else js_ToString v) vs)"
| "js_ToString (JObj _) = ''[object Object]''"

text \<open>
  \<^verbatim>\<open>v?.k\<close>, and \<^verbatim>\<open>v.k\<close> where the program has tested \<open>v\<close> for truth before. An object
  yields its own property or \<^verbatim>\<open>undefined\<close>. Of the names the program reads
  (\<^verbatim>\<open>message\<close>, \<^verbatim>\<open>shorturl\<close>, \<^verbatim>\<open>url\<close>, \<^verbatim>\<open>link\<close>, \<^verbatim>\<open>keyword\<close>, \<^verbatim>\<open>status\<close>, \<^verbatim>\<open>statusCode\<close>,
  \<^verbatim>\<open>error\<close>, \<^verbatim>\<open>total_links\<close>, \<^verbatim>\<open>stats\<close>, \<^verbatim>\<open>type\<close>, \<^verbatim>\<open>longUrl\<close>, \<^verbatim>\<open>title\<close>, \<^verbatim>\<open>shortUrl\<close>)
  none is inherited by an object or an array, and a primitive has only \<^verbatim>\<open>link\<close> (a
  method of strings), of which the program reads \<^verbatim>\<open>shorturl\<close>, which is \<^verbatim>\<open>undefined\<close>.
\<close>

fun js_get :: "jsval \<Rightarrow> string \<Rightarrow> jsval" where
  "js_get (JObj kvs) k = (case map_of kvs k of None \<Rightarrow> JUndefined | Some v \<Rightarrow> v)"
| "js_get _ k = JUndefined"

text \<open>
  An exception: the \<^verbatim>\<open>name\<close> and the \<^verbatim>\<open>message\<close> of the Error object thrown.
  \<^verbatim>\<open>new Error(m)\<close> is \<open>JsError ''Error'' m\<close>.
\<close>

datatype exn = JsError (name: string) (message: string)

abbreviation Error :: "string \<Rightarrow> exn" where
  "Error m \<equiv> JsError ''Error'' m"

text \<open>
  \<^verbatim>\<open>String(e?.message || e)\<close>: the message, and for an empty message what
  \<^verbatim>\<open>Error.prototype.toString\<close> returns, which is the name.
\<close>

definition error_text :: "exn \<Rightarrow> string" where
  "error_text e = (if message e \<noteq> [] then message e else name e)"

section \<open>The platform\<close>

text \<open>
  What the browser provides is a parameter of the model: the functions below are stated
  for any platform, and no theorem depends on how a browser parses a URL or a JSON text.
\<close>

text \<open>The properties of a \<^verbatim>\<open>URL\<close> object that the program reads.\<close>

record url =
  origin :: string
  hostname :: string
  pathname :: string
  searchParams :: "(string \<times> string) list"

text \<open>\<^verbatim>\<open>searchParams.get(k)\<close>: the first value of that name, \<open>None\<close> for \<^verbatim>\<open>null\<close>.\<close>

definition searchParams_get :: "url \<Rightarrow> string \<Rightarrow> string option" where
  "searchParams_get u k = map_of (searchParams u) k"

text \<open>
  A \<^verbatim>\<open>Response\<close>: its status, and its body as \<^verbatim>\<open>res.text()\<close> resolves it (\<open>None\<close> when
  that promise rejects).
\<close>

record response =
  status :: nat
  body :: "string option"

text \<open>\<^verbatim>\<open>res.ok\<close>: the status is in the range 200 to 299.\<close>

definition res_ok :: "response \<Rightarrow> bool" where
  "res_ok r = (200 \<le> status r \<and> status r \<le> 299)"

record platform =
  URL_new :: "string \<Rightarrow> exn + url"
    \<comment> \<open>\<^verbatim>\<open>new URL(s)\<close>; \<open>Inl\<close> is the TypeError it throws\<close>
  JSON_parse :: "string \<Rightarrow> jsval option"
    \<comment> \<open>\<^verbatim>\<open>JSON.parse(t)\<close>; \<open>None\<close> when it throws\<close>
  getMessage :: "string \<Rightarrow> string"
    \<comment> \<open>\<^verbatim>\<open>browser.i18n.getMessage(key)\<close>\<close>
  storage_local_get :: "exn + (string \<Rightarrow> jsval option)"
    \<comment> \<open>\<^verbatim>\<open>browser.storage.local.get(...)\<close>: the stored values by key; \<open>Inl\<close> when it rejects\<close>
  permissions_contains :: "string \<Rightarrow> exn + bool"
    \<comment> \<open>\<^verbatim>\<open>browser.permissions.contains({origins: [pattern]})\<close>\<close>
  fetch :: "string \<Rightarrow> (string \<times> string) list \<Rightarrow> exn + response"
    \<comment> \<open>\<^verbatim>\<open>fetch(endpoint, {method: "POST", headers, body})\<close>; \<open>Inl\<close> when it rejects\<close>
  null_read_error :: exn
    \<comment> \<open>the TypeError of reading a property of \<^verbatim>\<open>null\<close> or \<^verbatim>\<open>undefined\<close>\<close>

text \<open>What the program does to the outside, in order.\<close>

datatype event =
    PermissionsContains string
  | Fetch string "(string \<times> string) list"
  | Notify string string

text \<open>
  An \<^verbatim>\<open>async\<close> function: the events it caused, and its promise's outcome, \<open>Inl\<close> when
  rejected.
\<close>

type_synonym 'a async = "event list \<times> (exn + 'a)"

section \<open>helpers.js\<close>

definition sanitizeBaseUrl :: "platform \<Rightarrow> jsval \<Rightarrow> string" where
  "sanitizeBaseUrl p u =
     (if \<not> js_truthy u then []
      else
        (let u' = strip_trailing_slashes (remove_spaces (trim (js_ToString u))) in
         case URL_new p u' of
           Inl _ \<Rightarrow> []
         | Inr x \<Rightarrow> origin x @ strip_trailing_slashes (pathname x)))"

definition toFormData :: "(string \<times> jsval) list \<Rightarrow> (string \<times> string) list" where
  "toFormData obj =
     map (\<lambda>(k, v). (k, js_ToString v)) (filter (\<lambda>(k, v). v \<noteq> JUndefined \<and> v \<noteq> JNull) obj)"

record settings =
  yourlsUrl :: jsval
  apiSignature :: jsval
  autoCopy :: bool

text \<open>
  \<^verbatim>\<open>getSettings\<close> awaits the storage read and has no \<^verbatim>\<open>catch\<close>: when the read rejects,
  so does \<^verbatim>\<open>getSettings\<close>. A key that is not stored has its default.
\<close>

definition getSettings :: "platform \<Rightarrow> exn + settings" where
  "getSettings p =
     (case storage_local_get p of
        Inl e \<Rightarrow> Inl e
      | Inr stored \<Rightarrow>
          (let o_yourlsUrl = (case stored ''yourlsUrl'' of None \<Rightarrow> JStr [] | Some v \<Rightarrow> v);
               o_apiSignature = (case stored ''apiSignature'' of None \<Rightarrow> JStr [] | Some v \<Rightarrow> v);
               o_autoCopy = (case stored ''autoCopy'' of None \<Rightarrow> JBool True | Some v \<Rightarrow> v)
           in Inr \<lparr>yourlsUrl = o_yourlsUrl, apiSignature = o_apiSignature,
                   autoCopy = (o_autoCopy \<noteq> JBool False)\<rparr>))"

definition parseMaybeJson :: "platform \<Rightarrow> string \<Rightarrow> jsval" where
  "parseMaybeJson p t = (case JSON_parse p t of None \<Rightarrow> JNull | Some v \<Rightarrow> v)"

definition extractShort :: "jsval \<Rightarrow> string \<Rightarrow> jsval" where
  "extractShort json base =
     (if \<not> js_truthy json then JNull
      else if js_truthy (js_get json ''shorturl'') then js_get json ''shorturl''
      else if js_truthy (js_get (js_get json ''url'') ''shorturl'')
        then js_get (js_get json ''url'') ''shorturl''
      else if js_truthy (js_get (js_get json ''link'') ''shorturl'')
        then js_get (js_get json ''link'') ''shorturl''
      else if js_truthy (js_get json ''keyword'')
        then JStr (strip_trailing_slashes base @ ''/'' @ js_ToString (js_get json ''keyword''))
      else JNull)"

definition extractKeyword :: "platform \<Rightarrow> string \<Rightarrow> jsval \<Rightarrow> string" where
  "extractKeyword p base s =
     (if \<not> js_truthy s then []
      else
        (let s' = trim (js_ToString s) in
         case URL_new p s' of
           Inl _ \<Rightarrow> s'
         | Inr u \<Rightarrow>
             if base = [] then s'
             else
               (case URL_new p base of
                  Inl _ \<Rightarrow> s'
                | Inr b \<Rightarrow>
                    if origin u = origin b
                    then last_segment (strip_trailing_slashes (pathname u))
                    else s')))"

section \<open>background.js\<close>

record redirect_pattern =
  host_prefix :: string
  path :: string
  param :: string
  prefix_to_strip :: "string option"

definition REDIRECT_PATTERNS :: "redirect_pattern list" where
  "REDIRECT_PATTERNS =
     [\<lparr>host_prefix = ''www.google.'', path = ''/url'', param = ''url'', prefix_to_strip = None\<rparr>,
      \<lparr>host_prefix = ''www.bing.com'', path = ''/ck/a'', param = ''u'', prefix_to_strip = Some ''a1''\<rparr>,
      \<lparr>host_prefix = ''duckduckgo.com'', path = ''/l/'', param = ''uddg'', prefix_to_strip = None\<rparr>,
      \<lparr>host_prefix = ''www.youtube.com'', path = ''/redirect'', param = ''q'', prefix_to_strip = None\<rparr>]"

subsection \<open>The API client\<close>

text \<open>What \<^verbatim>\<open>yourlsFetch\<close> resolves to: \<^verbatim>\<open>{res, text, json}\<close> (\<open>res_text\<close> is \<^verbatim>\<open>text\<close>).\<close>

record fetched =
  res :: response
  res_text :: string
  json :: jsval

definition yourlsFetch :: "platform \<Rightarrow> string \<Rightarrow> (string \<times> jsval) list \<Rightarrow> fetched async" where
  "yourlsFetch p baseUrl payload =
     (case URL_new p baseUrl of
        Inl e \<Rightarrow> ([], Inl e)
      | Inr u \<Rightarrow>
          (let pat = origin u @ ''/*'' in
           case permissions_contains p pat of
             Inl e \<Rightarrow> ([PermissionsContains pat], Inl e)
           | Inr granted \<Rightarrow>
               if \<not> granted
               then ([PermissionsContains pat], Inl (Error ''Host permission was not granted.''))
               else
                 (let endpoint = baseUrl @ ''/yourls-api.php'';
                      params = toFormData payload
                  in case fetch p endpoint params of
                       Inl e \<Rightarrow> ([PermissionsContains pat, Fetch endpoint params], Inl e)
                     | Inr r \<Rightarrow>
                         (let t = (case body r of None \<Rightarrow> [] | Some b \<Rightarrow> b) in
                          ([PermissionsContains pat, Fetch endpoint params],
                           Inr \<lparr>res = r, res_text = t, json = parseMaybeJson p t\<rparr>)))))"

text \<open>\<^verbatim>\<open>toast(title, message)\<close>: one notification.\<close>

definition toast :: "platform \<Rightarrow> string \<Rightarrow> event" where
  "toast p key = Notify (getMessage p ''extensionName'') (getMessage p key)"

text \<open>\<^verbatim>\<open>`HTTP ${res.status}${text ? ": " + text.slice(0, n) : ""}`\<close>.\<close>

definition http_error_text :: "nat \<Rightarrow> response \<Rightarrow> string \<Rightarrow> string" where
  "http_error_text n r t =
     ''HTTP '' @ string_of_nat (status r) @ (if t \<noteq> [] then '': '' @ take n t else [])"

subsection \<open>The API operations\<close>

definition apiDbStats :: "platform \<Rightarrow> jsval async" where
  "apiDbStats p =
     (case getSettings p of
        Inl e \<Rightarrow> ([], Inl e)
      | Inr st \<Rightarrow>
     (let base = sanitizeBaseUrl p (yourlsUrl st)
      in case yourlsFetch p base
                [(''action'', JStr ''stats''), (''format'', JStr ''json''),
                 (''signature'', apiSignature st)] of
           (es, Inl e) \<Rightarrow> (es, Inl e)
         | (es, Inr f) \<Rightarrow>
             if \<not> res_ok (res f) \<or> \<not> js_truthy (json f)
             then (es, Inl (Error (getMessage p ''errorStatsFailed'')))
             else (es, Inr (json f))))"

definition apiStats :: "platform \<Rightarrow> jsval \<Rightarrow> jsval async" where
  "apiStats p shortOrKeyword =
     (case getSettings p of
        Inl e \<Rightarrow> ([], Inl e)
      | Inr st \<Rightarrow>
     (let base = sanitizeBaseUrl p (yourlsUrl st);
          kw = extractKeyword p base shortOrKeyword
      in case yourlsFetch p base
                [(''action'', JStr ''url-stats''), (''format'', JStr ''json''),
                 (''signature'', apiSignature st), (''shorturl'', JStr kw)] of
           (es, Inl e) \<Rightarrow> (es, Inl e)
         | (es, Inr f) \<Rightarrow>
             if \<not> res_ok (res f) then
               (if status (res f) = 404
                then (es, Inl (Error (getMessage p ''popupErrorStatsNotFound'')))
                else (es, Inl (Error (http_error_text 100 (res f) (res_text f)))))
             else (es, Inr (json f))))"

definition apiShorten :: "platform \<Rightarrow> jsval \<Rightarrow> jsval \<Rightarrow> jsval \<Rightarrow> jsval async" where
  "apiShorten p longUrl keyword title =
     (case getSettings p of
        Inl e \<Rightarrow> ([], Inl e)
      | Inr st \<Rightarrow>
     (let base = sanitizeBaseUrl p (yourlsUrl st)
      in if base = [] \<or> \<not> js_truthy (apiSignature st)
         then ([], Inl (Error (getMessage p ''errorNoSettings'')))
         else
           (let payload =
                  [(''action'', JStr ''shorturl''), (''format'', JStr ''json''),
                   (''signature'', apiSignature st), (''url'', longUrl)]
                  @ (if js_truthy keyword then [(''keyword'', keyword)] else [])
                  @ (if js_truthy title then [(''title'', title)] else [])
            in case yourlsFetch p base payload of
                 (es, Inl e) \<Rightarrow> (es, Inl e)
               | (es, Inr f) \<Rightarrow>
                   if js_truthy (json f) \<and>
                      contains_ci ''already exists''
                        (js_ToString (js_or (js_get (json f) ''message'') (JStr [])))
                   then
                     (let existingShortUrl =
                            (case short_url_match (js_ToString (js_get (json f) ''message'')) of
                               Some m \<Rightarrow> JStr m
                             | None \<Rightarrow> extractShort (json f) base)
                      in (es @ [toast p ''toastUrlExists''],
                          Inr (JObj [(''ok'', JBool True), (''shortUrl'', existingShortUrl),
                                     (''already'', JBool True)])))
                   else
                     (let short = extractShort (json f) base in
                      if res_ok (res f) \<and> js_truthy (json f) \<and> js_truthy short
                      then (es @ [toast p ''toastUrlCreated''],
                            Inr (JObj [(''ok'', JBool True), (''shortUrl'', short),
                                       (''already'', JBool False)]))
                      else if js_get (json f) ''status'' = JStr ''fail'' \<and>
                              js_truthy (js_get (json f) ''message'')
                      then (es, Inl (Error (js_ToString (js_get (json f) ''message''))))
                      else (es, Inl (Error (http_error_text 200 (res f) (res_text f))))))))"

text \<open>The local function \<^verbatim>\<open>isSuccess\<close> of \<^verbatim>\<open>apiDelete\<close>.\<close>

definition isSuccess :: "jsval \<Rightarrow> bool" where
  "isSuccess j =
     (js_truthy j \<and>
      (js_get j ''status'' = JStr ''success'' \<or>
       dotstar_ci ''success'' ''deleted'' (js_ToString (js_or (js_get j ''message'') (JStr []))) \<or>
       js_get j ''statusCode'' = JNum ''200''))"

definition apiDelete :: "platform \<Rightarrow> jsval \<Rightarrow> jsval async" where
  "apiDelete p shortOrKeyword =
     (case getSettings p of
        Inl e \<Rightarrow> ([], Inl e)
      | Inr st \<Rightarrow>
     (let base = sanitizeBaseUrl p (yourlsUrl st);
          keyword = extractKeyword p base shortOrKeyword
      in if keyword = []
         then ([], Inl (Error (getMessage p ''errorEnterKeywordToDelete'')))
         else
           (case yourlsFetch p base
                   [(''action'', JStr ''delete''), (''format'', JStr ''json''),
                    (''signature'', apiSignature st), (''shorturl'', JStr keyword)] of
              (es, Inl e) \<Rightarrow> (es, Inl e)
            | (es, Inr f) \<Rightarrow>
                if res_ok (res f) \<and> isSuccess (json f)
                then (es @ [toast p ''toastUrlDeleted''], Inr (JObj [(''ok'', JBool True)]))
                else
                  (let errorDetails =
                         js_or (js_or (js_get (json f) ''message'') (js_get (json f) ''error''))
                           (JStr [])
                   in (es, Inl (Error (''Delete failed: HTTP '' @ string_of_nat (status (res f))
                                  @ '' ''
                                  @ (if js_truthy errorDetails
                                     then ''- '' @ js_ToString errorDetails else []))))))))"

definition apiCheck :: "platform \<Rightarrow> jsval async" where
  "apiCheck p =
     (case getSettings p of
        Inl e \<Rightarrow> ([], Inl e)
      | Inr st \<Rightarrow>
     (let base = sanitizeBaseUrl p (yourlsUrl st)
      in if base = [] \<or> \<not> js_truthy (apiSignature st)
         then ([], Inr (JObj [(''ok'', JBool False),
                              (''reason'', JStr (getMessage p ''errorNoSettings''))]))
         else
           (case yourlsFetch p base
                   [(''action'', JStr ''stats''), (''format'', JStr ''json''),
                    (''signature'', apiSignature st)] of
              (es, Inl e) \<Rightarrow>
                (es, Inr (JObj [(''ok'', JBool False), (''reason'', JStr (error_text e))]))
            | (es, Inr f) \<Rightarrow>
                if res_ok (res f) \<and> js_truthy (json f)
                then
                  (let total =
                         js_coalesce
                           (js_coalesce (js_get (json f) ''total_links'')
                              (js_get (js_get (json f) ''stats'') ''total_links''))
                           (JStr ''?'')
                   in (es, Inr (JObj [(''ok'', JBool True), (''total'', total)])))
                else (es, Inr (JObj [(''ok'', JBool False),
                                     (''reason'', JStr (getMessage p ''optionsStatusConnFailed''))])))))"

subsection \<open>The URL to act on\<close>

text \<open>The context of a menu click and the active tab, with the fields the program reads.\<close>

record click_info =
  linkUrl :: "string option"
  selectionText :: "string option"

record tab_info =
  tab_url :: "string option"

text \<open>
  The \<^verbatim>\<open>for\<close> loop over the patterns: \<open>link\<close> is assigned at most once, and the loop
  ends there.
\<close>

fun clean_link :: "url \<Rightarrow> redirect_pattern list \<Rightarrow> string \<Rightarrow> string" where
  "clean_link urlObject [] link = link"
| "clean_link urlObject (pattern # patterns) link =
     (if prefix (host_prefix pattern) (hostname urlObject) \<and>
         prefix (path pattern) (pathname urlObject)
      then
        (case searchParams_get urlObject (param pattern) of
           None \<Rightarrow> clean_link urlObject patterns link
         | Some realUrl \<Rightarrow>
             if realUrl = [] then clean_link urlObject patterns link
             else
               (case prefix_to_strip pattern of
                  None \<Rightarrow> realUrl
                | Some pre \<Rightarrow>
                    if pre \<noteq> [] \<and> prefix pre realUrl then drop (length pre) realUrl
                    else realUrl))
      else clean_link urlObject patterns link)"

definition getUrlForAction :: "platform \<Rightarrow> click_info option \<Rightarrow> tab_info option \<Rightarrow> string" where
  "getUrlForAction p info tab =
     (case (case info of None \<Rightarrow> None | Some i \<Rightarrow> linkUrl i) of
        Some (c # cs) \<Rightarrow>
          (let link = c # cs in
           case URL_new p link of
             Inl _ \<Rightarrow> link
           | Inr urlObject \<Rightarrow> clean_link urlObject REDIRECT_PATTERNS link)
      | _ \<Rightarrow>
          (case (case info of
                   None \<Rightarrow> None
                 | Some i \<Rightarrow> (case selectionText i of None \<Rightarrow> None | Some t \<Rightarrow> http_url_match t)) of
             Some m \<Rightarrow> m
           | None \<Rightarrow>
               (case (case tab of None \<Rightarrow> None | Some t \<Rightarrow> tab_url t) of
                  Some (c # cs) \<Rightarrow> if \<not> prefix ''about:'' (c # cs) then c # cs else []
                | _ \<Rightarrow> [])))"

subsection \<open>The message listener\<close>

definition fail_envelope :: "string \<Rightarrow> jsval" where
  "fail_envelope reason = JObj [(''ok'', JBool False), (''reason'', JStr reason)]"

text \<open>The \<^verbatim>\<open>try\<close> block of the listener.\<close>

definition dispatch :: "platform \<Rightarrow> jsval \<Rightarrow> jsval async" where
  "dispatch p msg =
     (if msg = JUndefined \<or> msg = JNull then ([], Inl (null_read_error p))
      else
        (let ty = js_get msg ''type'' in
         if ty = JStr ''CHECK_CONNECTION'' then apiCheck p
         else if ty = JStr ''SHORTEN_URL'' then
           apiShorten p (js_get msg ''longUrl'')
             (js_or (js_get msg ''keyword'') (JStr []))
             (js_or (js_get msg ''title'') (JStr []))
         else if ty = JStr ''GET_STATS'' then
           (case apiStats p (js_get msg ''shortUrl'') of
              (es, Inl e) \<Rightarrow> (es, Inl e)
            | (es, Inr d) \<Rightarrow> (es, Inr (JObj [(''ok'', JBool True), (''data'', d)])))
         else if ty = JStr ''DELETE_SHORTURL'' then apiDelete p (js_get msg ''shortUrl'')
         else if ty = JStr ''GET_DB_STATS'' then
           (case apiDbStats p of
              (es, Inl e) \<Rightarrow> (es, Inl e)
            | (es, Inr d) \<Rightarrow> (es, Inr (JObj [(''ok'', JBool True), (''data'', d)])))
         else ([], Inr (fail_envelope ''Unknown message type''))))"

text \<open>The listener: the \<^verbatim>\<open>try\<close> block and its \<^verbatim>\<open>catch\<close>.\<close>

definition onMessage :: "platform \<Rightarrow> jsval \<Rightarrow> jsval async" where
  "onMessage p msg =
     (case dispatch p msg of
        (es, Inr v) \<Rightarrow> (es, Inr v)
      | (es, Inl e) \<Rightarrow>
          (let message = error_text e in
           if dotstar_ci ''keyword'' ''already exists'' message
           then (es, Inr (fail_envelope (getMessage p ''errorKeywordExists'')))
           else (es, Inr (fail_envelope message))))"

section \<open>A sample platform\<close>

text \<open>
  The examples below run the program on a concrete platform. Its URL constructor covers
  the plain inputs of the examples, where it returns what a browser returns: an input
  \<^verbatim>\<open>scheme:rest\<close> whose scheme is a letter followed by letters, digits, \<^verbatim>\<open>+\<close>, \<^verbatim>\<open>-\<close>
  or \<^verbatim>\<open>.\<close>; for \<^verbatim>\<open>http\<close> and \<^verbatim>\<open>https\<close> a host of letters, digits, dots and hyphens without
  credentials or port, and a path and a query of printable ASCII without \<^verbatim>\<open>%\<close>, \<^verbatim>\<open>+\<close>,
  dot segments or characters that a browser would escape; for another scheme an opaque
  path, whose origin is \<^verbatim>\<open>null\<close>. An input without a colon has no scheme and is
  rejected. No general theorem uses this platform.
\<close>

definition is_alpha :: "char \<Rightarrow> bool" where
  "is_alpha c = (let n = (of_char (lower_ascii c) :: nat) in 97 \<le> n \<and> n \<le> 122)"

definition is_scheme_char :: "char \<Rightarrow> bool" where
  "is_scheme_char c =
     (is_alpha c \<or> (let n = (of_char c :: nat) in 48 \<le> n \<and> n \<le> 57) \<or> c \<in> set ''+-.'')"

definition sample_query :: "string \<Rightarrow> (string \<times> string) list" where
  "sample_query q =
     map (\<lambda>kv. (takeWhile (\<lambda>c. c \<noteq> CHR ''='') kv, drop 1 (dropWhile (\<lambda>c. c \<noteq> CHR ''='') kv)))
       (filter (\<lambda>kv. kv \<noteq> []) (split_at CHR ''&'' q))"

definition sample_invalid_url :: "string \<Rightarrow> exn" where
  "sample_invalid_url s = JsError ''TypeError'' (''URL constructor: '' @ s @ '' is not a valid URL.'')"

definition sample_URL :: "string \<Rightarrow> exn + url" where
  "sample_URL s =
     (let scheme = map lower_ascii (takeWhile (\<lambda>c. c \<noteq> CHR '':'') s);
          rest = drop (length scheme + 1) s;
          before_hash = takeWhile (\<lambda>c. c \<noteq> CHR ''#'') rest;
          before_query = takeWhile (\<lambda>c. c \<noteq> CHR ''?'') before_hash;
          query = sample_query (drop (length before_query + 1) before_hash)
      in if CHR '':'' \<notin> set s \<or> scheme = [] \<or> \<not> is_alpha (hd scheme) \<or>
            \<not> list_all is_scheme_char scheme
         then Inl (sample_invalid_url s)
         else if scheme \<in> {''http'', ''https''} then
           (let r = dropWhile (\<lambda>c. c = CHR ''/'') before_query;
                host = map lower_ascii (takeWhile (\<lambda>c. c \<noteq> CHR ''/'') r);
                pth = drop (length host) r
            in if host = [] then Inl (sample_invalid_url s)
               else Inr \<lparr>origin = scheme @ ''://'' @ host, hostname = host,
                         pathname = (if pth = [] then ''/'' else pth), searchParams = query\<rparr>)
         else Inr \<lparr>origin = ''null'', hostname = [], pathname = before_query,
                   searchParams = query\<rparr>)"

text \<open>
  The JSON texts of the examples and their values; every other text of the examples is
  not JSON.
\<close>

definition sample_JSON :: \<open>string \<Rightarrow> jsval option\<close> where
  \<open>sample_JSON t =
     (if t = ''{"status":"fail","message":"short URL already exists (short URL: https://go.example/xyz)"}''
      then Some (JObj [(''status'', JStr ''fail''),
                       (''message'', JStr ''short URL already exists (short URL: https://go.example/xyz)'')])
      else if t = ''{"message":"success: deleted"}''
      then Some (JObj [(''message'', JStr ''success: deleted'')])
      else None)\<close>

text \<open>
  The sample platform: the stored base URL and token, whether the host permission is
  held, and what the network answers. A message text is its key.
\<close>

definition sample_platform :: "string \<Rightarrow> string \<Rightarrow> bool \<Rightarrow> exn + response \<Rightarrow> platform" where
  "sample_platform base_url token granted answer =
     \<lparr>URL_new = sample_URL,
      JSON_parse = sample_JSON,
      getMessage = (\<lambda>key. key),
      storage_local_get = Inr [''yourlsUrl'' \<mapsto> JStr base_url, ''apiSignature'' \<mapsto> JStr token],
      permissions_contains = (\<lambda>pat. Inr granted),
      fetch = (\<lambda>endpoint params. answer),
      null_read_error = JsError ''TypeError'' ''msg is null''\<rparr>"

text \<open>
  The platforms of the examples. The base URL \<^verbatim>\<open>https://go.example/\<close> and a token are
  stored and the host permission is held; \<open>answering n b\<close> is the platform where the
  service answers with the status \<open>n\<close> and the body \<open>b\<close>.
\<close>

definition answering :: "nat \<Rightarrow> string \<Rightarrow> platform" where
  "answering n b =
     sample_platform ''https://go.example/'' ''secret'' True (Inr \<lparr>status = n, body = Some b\<rparr>)"

definition example_platform :: platform where
  \<open>example_platform = answering 200 ''{"message":"success: deleted"}''\<close>

text \<open>The same, without the host permission.\<close>

definition denied_platform :: platform where
  \<open>denied_platform =
     sample_platform ''https://go.example/'' ''secret'' False
       (Inr \<lparr>status = 200, body = Some ''{"message":"success: deleted"}''\<rparr>)\<close>

text \<open>The same, with a network that fails.\<close>

definition offline_platform :: platform where
  "offline_platform =
     sample_platform ''https://go.example/'' ''secret'' True
       (Inl (JsError ''TypeError'' ''NetworkError when attempting to fetch resource.''))"

text \<open>Nothing is stored: the settings have their defaults.\<close>

definition unconfigured_platform :: platform where
  "unconfigured_platform =
     (sample_platform [] [] True
        (Inl (JsError ''TypeError'' ''NetworkError when attempting to fetch resource.'')))
     \<lparr>storage_local_get := Inr Map.empty\<rparr>"

text \<open>The platform of the examples with a storage whose read fails.\<close>

definition broken_storage_platform :: platform where
  "broken_storage_platform =
     example_platform \<lparr>storage_local_get := Inl (Error ''An unexpected error occurred'')\<rparr>"

section \<open>Notions of the specification\<close>

text \<open>
  The test of the loop of \<^verbatim>\<open>getUrlForAction\<close> for one pattern: the host name and the
  path of the URL start with the prefixes of the pattern.
\<close>

definition pattern_matches :: "url \<Rightarrow> redirect_pattern \<Rightarrow> bool" where
  "pattern_matches u pt =
     (prefix (host_prefix pt) (hostname u) \<and> prefix (path pt) (pathname u))"

text \<open>The value of the query parameter without the prefix that the pattern names.\<close>

definition strip_value_prefix :: "redirect_pattern \<Rightarrow> string \<Rightarrow> string" where
  "strip_value_prefix pt v =
     (case prefix_to_strip pt of
        None \<Rightarrow> v
      | Some pre \<Rightarrow> if prefix pre v then drop (length pre) v else v)"

text \<open>
  The last non-empty segment of a path, in the words of the specification: of the
  segments between the slashes, the last one that is not empty, and the empty string
  when all are empty.
\<close>

definition last_nonempty_segment :: "string \<Rightarrow> string" where
  "last_nonempty_segment pth =
     (let segs = filter (\<lambda>seg. seg \<noteq> []) (split_at CHR ''/'' pth)
      in if segs = [] then [] else last segs)"

section \<open>Facts about the string operations\<close>

lemma strip_trailing_slashes_last:
  "strip_trailing_slashes s = [] \<or> last (strip_trailing_slashes s) \<noteq> CHR ''/''"
proof -
  let ?r = "dropWhile (\<lambda>c. c = CHR ''/'') (rev s)"
  have "?r = [] \<or> hd ?r \<noteq> CHR ''/''"
    using hd_dropWhile[of "\<lambda>c. c = CHR ''/''" "rev s"] by blast
  then show ?thesis
    by (auto simp: strip_trailing_slashes_def last_rev)
qed

lemma split_at_nonempty [simp]: "split_at sep s \<noteq> []"
  by (induction s) (auto split: list.splits)

lemma split_at_snoc_sep: "split_at sep (s @ [sep]) = split_at sep s @ [[]]"
  by (induction s) (auto split: list.splits)

lemma split_at_snoc_other:
  "c \<noteq> sep \<Longrightarrow>
   split_at sep (s @ [c]) = butlast (split_at sep s) @ [last (split_at sep s) @ [c]]"
  by (induction s) (auto split: list.splits)

lemma last_split_at_empty: "last (split_at sep s) = [] \<longleftrightarrow> s = [] \<or> last s = sep"
proof (cases s rule: rev_cases)
  case Nil
  then show ?thesis by simp
next
  case (snoc ys y)
  then show ?thesis
    by (cases "y = sep") (simp_all add: split_at_snoc_sep split_at_snoc_other)
qed

lemma last_filter_keep: "xs \<noteq> [] \<Longrightarrow> P (last xs) \<Longrightarrow> last (filter P xs) = last xs"
  by (cases xs rule: rev_cases) auto

text \<open>The slashes at the end of a path only add empty segments.\<close>

lemma filter_split_strip:
  "filter (\<lambda>seg. seg \<noteq> []) (split_at CHR ''/'' (strip_trailing_slashes s))
   = filter (\<lambda>seg. seg \<noteq> []) (split_at CHR ''/'' s)"
proof (induction s rule: rev_induct)
  case Nil
  then show ?case by (simp add: strip_trailing_slashes_def)
next
  case (snoc c s)
  show ?case
  proof (cases "c = CHR ''/''")
    case True
    then have "strip_trailing_slashes (s @ [c]) = strip_trailing_slashes s"
      by (simp add: strip_trailing_slashes_def)
    then show ?thesis using snoc True by (simp add: split_at_snoc_sep)
  next
    case False
    then have "strip_trailing_slashes (s @ [c]) = s @ [c]"
      by (simp add: strip_trailing_slashes_def)
    then show ?thesis by simp
  qed
qed

text \<open>
  What \<^verbatim>\<open>pathname.replace(/\/+$/, "").split("/").pop()\<close> computes is the last non-empty
  segment of the path.
\<close>

lemma last_segment_strip:
  "last_segment (strip_trailing_slashes pth) = last_nonempty_segment pth"
proof -
  let ?q = "strip_trailing_slashes pth"
  let ?P = "\<lambda>seg::string. seg \<noteq> []"
  show ?thesis
  proof (cases "?q = []")
    case True
    then have "filter ?P (split_at CHR ''/'' pth) = []"
      using filter_split_strip[of pth] by simp
    then show ?thesis using True by (simp add: last_segment_def last_nonempty_segment_def)
  next
    case False
    then have ne: "last (split_at CHR ''/'' ?q) \<noteq> []"
      using strip_trailing_slashes_last[of pth] by (simp add: last_split_at_empty)
    then have l: "last (filter ?P (split_at CHR ''/'' ?q)) = last (split_at CHR ''/'' ?q)"
      by (simp add: last_filter_keep)
    have "last (split_at CHR ''/'' ?q) \<in> set (filter ?P (split_at CHR ''/'' ?q))"
      using ne by simp
    then have "filter ?P (split_at CHR ''/'' ?q) \<noteq> []"
      by (metis empty_iff list.set(1))
    with l show ?thesis
      unfolding last_segment_def last_nonempty_segment_def filter_split_strip[symmetric, of pth]
      by (simp add: Let_def)
  qed
qed

section \<open>Facts about the pattern table\<close>

lemma prefix_take: "prefix q h \<Longrightarrow> n \<le> length q \<Longrightarrow> take n h = take n q"
  by (auto simp: prefix_def)

lemma host_prefixes_long: "\<forall>q \<in> set REDIRECT_PATTERNS. 5 \<le> length (host_prefix q)"
  unfolding REDIRECT_PATTERNS_def by simp

lemma host_prefixes_differ:
  "\<forall>q \<in> set REDIRECT_PATTERNS. \<forall>q' \<in> set REDIRECT_PATTERNS.
     take 5 (host_prefix q) = take 5 (host_prefix q') \<longrightarrow> q = q'"
  unfolding REDIRECT_PATTERNS_def by simp

text \<open>No host name starts with the host prefixes of two patterns of the table.\<close>

lemma host_prefixes_exclusive:
  assumes "pt \<in> set REDIRECT_PATTERNS" "pt' \<in> set REDIRECT_PATTERNS"
    and "prefix (host_prefix pt) h" "prefix (host_prefix pt') h"
  shows "pt = pt'"
proof -
  have "take 5 h = take 5 (host_prefix pt)"
    using prefix_take[OF assms(3)] host_prefixes_long assms(1) by blast
  moreover have "take 5 h = take 5 (host_prefix pt')"
    using prefix_take[OF assms(4)] host_prefixes_long assms(2) by blast
  ultimately show ?thesis
    using host_prefixes_differ assms(1,2) by metis
qed

lemma distinct_patterns: "distinct REDIRECT_PATTERNS"
  unfolding REDIRECT_PATTERNS_def by simp

lemma clean_link_no_match:
  "find (pattern_matches u) pts = None \<Longrightarrow> clean_link u pts link = link"
  by (induction pts) (auto simp: pattern_matches_def split: if_splits)

lemma clean_link_skip:
  "\<forall>pt \<in> set pts. \<not> prefix (host_prefix pt) (hostname u) \<Longrightarrow> clean_link u pts link = link"
  by (induction pts) auto

text \<open>
  The loop does not stop at a matching pattern whose parameter is missing or empty; it
  goes on to the patterns after it. When no later pattern can match, the first matching
  pattern decides.
\<close>

lemma clean_link_first:
  assumes "find (pattern_matches u) pts = Some pt"
    and "distinct pts"
    and "\<forall>pt' \<in> set pts. pt' \<noteq> pt \<longrightarrow> \<not> prefix (host_prefix pt') (hostname u)"
  shows "clean_link u pts link =
     (case searchParams_get u (param pt) of
        None \<Rightarrow> link
      | Some v \<Rightarrow> if v = [] then link else strip_value_prefix pt v)"
  using assms
proof (induction pts)
  case Nil
  then show ?case by simp
next
  case (Cons a pts)
  show ?case
  proof (cases "pattern_matches u a")
    case True
    then have a: "a = pt" using Cons.prems(1) by simp
    have "pt \<notin> set pts" using Cons.prems(2) a by simp
    then have rest: "\<forall>pt' \<in> set pts. \<not> prefix (host_prefix pt') (hostname u)"
      using Cons.prems(3) by auto
    have m: "prefix (host_prefix pt) (hostname u)" "prefix (path pt) (pathname u)"
      using True a by (simp_all add: pattern_matches_def)
    show ?thesis
      unfolding a clean_link.simps clean_link_skip[OF rest] strip_value_prefix_def
      using m by (simp split: option.splits)
  next
    case False
    then have "find (pattern_matches u) pts = Some pt" using Cons.prems(1) by simp
    moreover have "distinct pts" using Cons.prems(2) by simp
    moreover have "\<forall>pt' \<in> set pts. pt' \<noteq> pt \<longrightarrow> \<not> prefix (host_prefix pt') (hostname u)"
      using Cons.prems(3) by simp
    ultimately have "clean_link u pts link =
     (case searchParams_get u (param pt) of
        None \<Rightarrow> link
      | Some v \<Rightarrow> if v = [] then link else strip_value_prefix pt v)"
      by (rule Cons.IH)
    moreover have "clean_link u (a # pts) link = clean_link u pts link"
      using False by (auto simp: pattern_matches_def)
    ultimately show ?thesis by simp
  qed
qed

lemma clean_link_table:
  assumes "find (pattern_matches u) REDIRECT_PATTERNS = Some pt"
  shows "clean_link u REDIRECT_PATTERNS link =
     (case searchParams_get u (param pt) of
        None \<Rightarrow> link
      | Some v \<Rightarrow> if v = [] then link else strip_value_prefix pt v)"
proof (rule clean_link_first[OF assms distinct_patterns])
  have pt: "pt \<in> set REDIRECT_PATTERNS" "pattern_matches u pt"
    using assms by (auto simp: find_Some_iff)
  show "\<forall>pt' \<in> set REDIRECT_PATTERNS. pt' \<noteq> pt \<longrightarrow> \<not> prefix (host_prefix pt') (hostname u)"
    using host_prefixes_exclusive[OF _ pt(1)] pt(2) by (auto simp: pattern_matches_def)
qed

section \<open>sanitizeBaseUrl\<close>

text \<open>The function is total, and an input whose cleaned text does not parse yields the empty string.\<close>

lemma sanitizeBaseUrl_parse_failure:
  "URL_new p (strip_trailing_slashes (remove_spaces (trim (js_ToString v)))) = Inl e
   \<Longrightarrow> sanitizeBaseUrl p v = []"
  by (simp add: sanitizeBaseUrl_def)

text \<open>
  C9: \<^verbatim>\<open>sanitizeBaseUrl\<close> is to be idempotent on every input string. The code is not, at
  the input \<^verbatim>\<open>mailto:a@b\<close>. This text parses as a URL; a URL of a scheme without a tuple
  origin has the origin \<^verbatim>\<open>null\<close>, and the function returns \<^verbatim>\<open>x.origin + path\<close>, here
  \<^verbatim>\<open>nulla@b\<close>. That is neither a validated base URL nor the empty string, the two results
  the comment of the function announces. The second application gets a text that is no
  URL and returns the empty string.
\<close>

theorem sanitizeBaseUrl_not_idempotent_mailto:
  "sanitizeBaseUrl example_platform (JStr ''mailto:a@b'') = ''nulla@b'' \<and>
   sanitizeBaseUrl example_platform (JStr (sanitizeBaseUrl example_platform (JStr ''mailto:a@b'')))
     = [] \<and>
   sanitizeBaseUrl example_platform (JStr (sanitizeBaseUrl example_platform (JStr ''mailto:a@b'')))
     \<noteq> sanitizeBaseUrl example_platform (JStr ''mailto:a@b'')"
  by code_simp

section \<open>The Redirect Cleaner\<close>

text \<open>
  C2, as stated, fails where the query parameter of the matching pattern is present and
  empty: the claim returns the value, which is the empty string, and the program returns
  the link. For \<^verbatim>\<open>https://www.google.com/url?url=\<close> the first pattern matches,
  \<^verbatim>\<open>searchParams.get("url")\<close> is the empty string, \<^verbatim>\<open>if (realUrl)\<close> fails, and the link
  itself is returned.
\<close>

theorem getUrlForAction_empty_parameter_kept:
  "URL_new example_platform ''https://www.google.com/url?url=''
     = Inr \<lparr>origin = ''https://www.google.com'', hostname = ''www.google.com'',
            pathname = ''/url'', searchParams = [(''url'', [])]\<rparr> \<and>
   find (pattern_matches \<lparr>origin = ''https://www.google.com'', hostname = ''www.google.com'',
                          pathname = ''/url'', searchParams = [(''url'', [])]\<rparr>)
     REDIRECT_PATTERNS
     = Some \<lparr>host_prefix = ''www.google.'', path = ''/url'', param = ''url'',
             prefix_to_strip = None\<rparr> \<and>
   searchParams_get \<lparr>origin = ''https://www.google.com'', hostname = ''www.google.com'',
                     pathname = ''/url'', searchParams = [(''url'', [])]\<rparr> ''url'' = Some [] \<and>
   getUrlForAction example_platform
     (Some \<lparr>linkUrl = Some ''https://www.google.com/url?url='', selectionText = None\<rparr>) None
     = ''https://www.google.com/url?url='' \<and>
   getUrlForAction example_platform
     (Some \<lparr>linkUrl = Some ''https://www.google.com/url?url='', selectionText = None\<rparr>) None
     \<noteq> []"
  by code_simp

text \<open>
  C2, amended: for every non-empty link of a context-menu click, the patterns are tested
  in table order on host-name prefix and path prefix. When the link does not parse, or no
  pattern matches, or the query parameter of the first matching pattern is absent or
  empty, the link is returned unchanged. Otherwise the value of that parameter is
  returned, without the prefix the pattern names when the value starts with it. The
  result is the link or the extraction of one pattern: nothing is cleaned twice.
\<close>

theorem getUrlForAction_cleans_link:
  assumes "link \<noteq> []"
  shows
   "(URL_new p link = Inl e \<longrightarrow>
       getUrlForAction p (Some \<lparr>linkUrl = Some link, selectionText = sel\<rparr>) tab = link) \<and>
    (URL_new p link = Inr u \<and> find (pattern_matches u) REDIRECT_PATTERNS = None \<longrightarrow>
       getUrlForAction p (Some \<lparr>linkUrl = Some link, selectionText = sel\<rparr>) tab = link) \<and>
    (URL_new p link = Inr u \<and> find (pattern_matches u) REDIRECT_PATTERNS = Some pt \<longrightarrow>
       getUrlForAction p (Some \<lparr>linkUrl = Some link, selectionText = sel\<rparr>) tab =
         (case searchParams_get u (param pt) of
            None \<Rightarrow> link
          | Some v \<Rightarrow> if v = [] then link else strip_value_prefix pt v))"
proof -
  obtain c cs where l: "link = c # cs" using assms by (cases link) auto
  have step: "\<And>r. URL_new p link = r \<Longrightarrow>
      getUrlForAction p (Some \<lparr>linkUrl = Some link, selectionText = sel\<rparr>) tab =
        (case r of Inl _ \<Rightarrow> link | Inr urlObject \<Rightarrow> clean_link urlObject REDIRECT_PATTERNS link)"
    unfolding getUrlForAction_def l by (simp add: Let_def)
  show ?thesis
  proof (intro conjI impI)
    assume "URL_new p link = Inl e"
    from step[OF this]
    show "getUrlForAction p (Some \<lparr>linkUrl = Some link, selectionText = sel\<rparr>) tab = link"
      by simp
  next
    assume a: "URL_new p link = Inr u \<and> find (pattern_matches u) REDIRECT_PATTERNS = None"
    then have "clean_link u REDIRECT_PATTERNS link = link" by (simp add: clean_link_no_match)
    with step[of "Inr u"] a
    show "getUrlForAction p (Some \<lparr>linkUrl = Some link, selectionText = sel\<rparr>) tab = link"
      by simp
  next
    assume a: "URL_new p link = Inr u \<and> find (pattern_matches u) REDIRECT_PATTERNS = Some pt"
    then have "clean_link u REDIRECT_PATTERNS link =
         (case searchParams_get u (param pt) of
            None \<Rightarrow> link
          | Some v \<Rightarrow> if v = [] then link else strip_value_prefix pt v)"
      using clean_link_table[of u pt link] by blast
    with step[of "Inr u"] a
    show "getUrlForAction p (Some \<lparr>linkUrl = Some link, selectionText = sel\<rparr>) tab =
         (case searchParams_get u (param pt) of
            None \<Rightarrow> link
          | Some v \<Rightarrow> if v = [] then link else strip_value_prefix pt v)"
      by simp
  qed
qed

theorem getUrlForAction_cleans_link_witness:
  "getUrlForAction example_platform
     (Some \<lparr>linkUrl = Some ''https://www.bing.com/ck/a?u=a1aHR0cHM6Ly9leGFtcGxlLmNvbQ'',
            selectionText = None\<rparr>) None
   = ''aHR0cHM6Ly9leGFtcGxlLmNvbQ''"
proof -
  let ?link = "''https://www.bing.com/ck/a?u=a1aHR0cHM6Ly9leGFtcGxlLmNvbQ''"
  let ?u = "\<lparr>origin = ''https://www.bing.com'', hostname = ''www.bing.com'',
             pathname = ''/ck/a'', searchParams = [(''u'', ''a1aHR0cHM6Ly9leGFtcGxlLmNvbQ'')]\<rparr>"
  let ?pt = "\<lparr>host_prefix = ''www.bing.com'', path = ''/ck/a'', param = ''u'',
              prefix_to_strip = Some ''a1''\<rparr>"
  have h0: "?link \<noteq> []" by simp
  have h1: "URL_new example_platform ?link = Inr ?u" by code_simp
  have h2: "find (pattern_matches ?u) REDIRECT_PATTERNS = Some ?pt" by code_simp
  have h3: "(case searchParams_get ?u (param ?pt) of
               None \<Rightarrow> ?link
             | Some v \<Rightarrow> if v = [] then ?link else strip_value_prefix ?pt v)
            = ''aHR0cHM6Ly9leGFtcGxlLmNvbQ''"
    by code_simp
  from getUrlForAction_cleans_link[OF h0, where p = example_platform and u = ?u and pt = ?pt
         and sel = None and tab = None] h1 h2 h3
  show ?thesis by simp
qed

section \<open>The Keyword Resolver\<close>

text \<open>
  C3, as stated, fails on a candidate with white space around it: the program trims the
  candidate before anything else and returns the trimmed text, not the candidate
  unchanged. The candidate \<^verbatim>\<open>" abc "\<close> does not parse as a URL and \<^verbatim>\<open>"abc"\<close> is returned.
\<close>

theorem extractKeyword_trims_candidate:
  "URL_new example_platform (trim '' abc '') = Inl (sample_invalid_url ''abc'') \<and>
   extractKeyword example_platform ''https://go.example'' (JStr '' abc '') = ''abc'' \<and>
   extractKeyword example_platform ''https://go.example'' (JStr '' abc '') \<noteq> '' abc ''"
  by code_simp

text \<open>
  C3, amended: for every candidate string \<open>s\<close> and base URL, with \<open>t\<close> the candidate
  without the white space around it: the empty candidate yields the empty string; if \<open>t\<close>
  does not parse as a URL, \<open>t\<close> is returned; if \<open>t\<close> parses and the base URL is not empty
  and parses to the same origin, the last non-empty segment of the path of \<open>t\<close> is
  returned (the empty string when the path has none); if \<open>t\<close> parses to another origin
  than the base URL, or the base URL is empty or does not parse, \<open>t\<close> is returned.
\<close>

theorem extractKeyword_cases:
  "extractKeyword p base (JStr []) = [] \<and>
   (s \<noteq> [] \<and> URL_new p (trim s) = Inl e \<longrightarrow> extractKeyword p base (JStr s) = trim s) \<and>
   (s \<noteq> [] \<and> URL_new p (trim s) = Inr u \<and> base \<noteq> [] \<and> URL_new p base = Inr b \<and>
    origin u = origin b
      \<longrightarrow> extractKeyword p base (JStr s) = last_nonempty_segment (pathname u)) \<and>
   (s \<noteq> [] \<and> URL_new p (trim s) = Inr u \<and> URL_new p base = Inr b \<and> origin u \<noteq> origin b
      \<longrightarrow> extractKeyword p base (JStr s) = trim s) \<and>
   (s \<noteq> [] \<and> URL_new p (trim s) = Inr u \<and> (base = [] \<or> URL_new p base = Inl e')
      \<longrightarrow> extractKeyword p base (JStr s) = trim s)"
  unfolding extractKeyword_def Let_def
  by (simp add: last_segment_strip)

theorem extractKeyword_cases_witness:
  "extractKeyword example_platform ''https://go.example'' (JStr ''https://go.example/abc123'')
     = ''abc123'' \<and>
   extractKeyword example_platform ''https://go.example'' (JStr ''abc123'') = ''abc123'' \<and>
   extractKeyword example_platform ''https://go.example'' (JStr ''https://other.example/abc123'')
     = ''https://other.example/abc123''"
proof -
  let ?u = "\<lparr>origin = ''https://go.example'', hostname = ''go.example'',
             pathname = ''/abc123'', searchParams = []\<rparr>"
  let ?o = "\<lparr>origin = ''https://other.example'', hostname = ''other.example'',
             pathname = ''/abc123'', searchParams = []\<rparr>"
  let ?b = "\<lparr>origin = ''https://go.example'', hostname = ''go.example'',
             pathname = ''/'', searchParams = []\<rparr>"
  have b: "URL_new example_platform ''https://go.example'' = Inr ?b" by code_simp
  have h1: "URL_new example_platform (trim ''https://go.example/abc123'') = Inr ?u" by code_simp
  have t1: "trim ''https://go.example/abc123'' = ''https://go.example/abc123''" by code_simp
  have r1: "last_nonempty_segment (pathname ?u) = ''abc123''" by code_simp
  have h2: "URL_new example_platform (trim ''abc123'') = Inl (sample_invalid_url ''abc123'')"
    by code_simp
  have t2: "trim ''abc123'' = ''abc123''" by code_simp
  have h3: "URL_new example_platform (trim ''https://other.example/abc123'') = Inr ?o"
    by code_simp
  have t3: "trim ''https://other.example/abc123'' = ''https://other.example/abc123''"
    by code_simp
  from extractKeyword_cases[where p = example_platform and base = "''https://go.example''"
         and s = "''https://go.example/abc123''" and u = ?u and b = ?b] b h1 r1
  have c1: "extractKeyword example_platform ''https://go.example''
              (JStr ''https://go.example/abc123'') = ''abc123''"
    by simp
  from extractKeyword_cases[where p = example_platform and base = "''https://go.example''"
         and s = "''abc123''" and e = "sample_invalid_url ''abc123''"] h2 t2
  have c2: "extractKeyword example_platform ''https://go.example'' (JStr ''abc123'') = ''abc123''"
    by simp
  from extractKeyword_cases[where p = example_platform and base = "''https://go.example''"
         and s = "''https://other.example/abc123''" and u = ?o and b = ?b] b h3 t3
  have c3: "extractKeyword example_platform ''https://go.example''
              (JStr ''https://other.example/abc123'') = ''https://other.example/abc123''"
    by simp
  from c1 c2 c3 show ?thesis by simp
qed

section \<open>The API client\<close>

lemma yourlsFetch_denied:
  assumes "URL_new p baseUrl = Inr u"
    and "permissions_contains p (origin u @ ''/*'') = Inr False"
  shows "yourlsFetch p baseUrl payload =
     ([PermissionsContains (origin u @ ''/*'')], Inl (Error ''Host permission was not granted.''))"
  using assms by (simp add: yourlsFetch_def)

lemma yourlsFetch_query_first:
  assumes "URL_new p baseUrl = Inr u"
  shows "\<exists>rest. fst (yourlsFetch p baseUrl payload) = PermissionsContains (origin u @ ''/*'') # rest"
  using assms unfolding yourlsFetch_def Let_def
  by (auto split: sum.splits if_splits)

lemma yourlsFetch_Fetch_after_grant:
  assumes "Fetch ep ps \<in> set (fst (yourlsFetch p baseUrl payload))"
  shows "\<exists>u. URL_new p baseUrl = Inr u \<and>
             permissions_contains p (origin u @ ''/*'') = Inr True \<and>
             fst (yourlsFetch p baseUrl payload)
               = [PermissionsContains (origin u @ ''/*''), Fetch ep ps]"
  using assms unfolding yourlsFetch_def Let_def
  by (auto split: sum.splits if_splits)

text \<open>A response that arrived: its text is the body, and its JSON is parsed from the text.\<close>

lemma yourlsFetch_Inr:
  assumes "yourlsFetch p baseUrl payload = (es, Inr f)"
  shows "res_text f = (case body (res f) of None \<Rightarrow> [] | Some b \<Rightarrow> b) \<and>
         json f = parseMaybeJson p (res_text f)"
  using assms unfolding yourlsFetch_def Let_def
  by (auto split: sum.splits if_splits)

lemma yourlsFetch_rejected_base:
  "URL_new p baseUrl = Inl e \<Longrightarrow> yourlsFetch p baseUrl payload = ([], Inl e)"
  by (simp add: yourlsFetch_def)

lemma yourlsFetch_empty_base:
  "URL_new p [] = Inl e \<Longrightarrow> yourlsFetch p [] payload = ([], Inl e)"
  by (rule yourlsFetch_rejected_base)

text \<open>
  C7, as stated, fails for a base that is not empty and that the URL constructor
  rejects: the client constructs the URL before it asks for the permission, so there it
  asks nothing and fails with the TypeError of the constructor, not with the permission
  error. Such a base reaches the client: the stored address \<^verbatim>\<open>localhost:8080\<close> is
  sanitized to \<^verbatim>\<open>null8080\<close>, which is not empty and is not a URL.
\<close>

theorem yourlsFetch_rejected_base_asks_nothing:
  "sanitizeBaseUrl example_platform (JStr ''localhost:8080'') = ''null8080'' \<and>
   yourlsFetch example_platform ''null8080'' [(''action'', JStr ''stats'')]
     = ([], Inl (JsError ''TypeError'' ''URL constructor: null8080 is not a valid URL.'')) \<and>
   fst (yourlsFetch example_platform ''null8080'' [(''action'', JStr ''stats'')]) = []"
  by code_simp

text \<open>
  C7, amended: for every call of the API client with a base URL that the URL constructor
  accepts, the first thing the client does is to ask whether the extension holds the
  host permission for the origin of the base URL. When the permission is not held, the
  call fails with the permission error and the permission query is all that happened: no
  network request, and no request for the permission. In every call, whatever the base
  is, a network request is preceded by the permission query, and the query was answered
  with yes; a base that the URL constructor rejects ends the call before anything
  happens.
\<close>

theorem yourlsFetch_permission_before_network:
  "(URL_new p baseUrl = Inr u
      \<longrightarrow> (\<exists>rest. fst (yourlsFetch p baseUrl payload)
                     = PermissionsContains (origin u @ ''/*'') # rest)) \<and>
   (URL_new p baseUrl = Inr u \<and> permissions_contains p (origin u @ ''/*'') = Inr False
      \<longrightarrow> yourlsFetch p baseUrl payload =
            ([PermissionsContains (origin u @ ''/*'')],
             Inl (Error ''Host permission was not granted.''))) \<and>
   (Fetch ep ps \<in> set (fst (yourlsFetch p baseUrl payload))
      \<longrightarrow> (\<exists>u'. URL_new p baseUrl = Inr u' \<and>
                permissions_contains p (origin u' @ ''/*'') = Inr True \<and>
                fst (yourlsFetch p baseUrl payload)
                  = [PermissionsContains (origin u' @ ''/*''), Fetch ep ps])) \<and>
   (URL_new p baseUrl = Inl e \<longrightarrow> yourlsFetch p baseUrl payload = ([], Inl e))"
  using yourlsFetch_denied[of p baseUrl u payload]
        yourlsFetch_query_first[of p baseUrl u payload]
        yourlsFetch_Fetch_after_grant[of ep ps p baseUrl payload]
        yourlsFetch_rejected_base[of p baseUrl e payload]
  by blast

theorem yourlsFetch_permission_before_network_witness:
  "yourlsFetch denied_platform ''https://go.example'' [(''action'', JStr ''stats'')]
     = ([PermissionsContains ''https://go.example/*''],
        Inl (Error ''Host permission was not granted.'')) \<and>
   permissions_contains example_platform ''https://go.example/*'' = Inr True \<and>
   fst (yourlsFetch example_platform ''https://go.example'' [(''action'', JStr ''stats'')])
     = [PermissionsContains ''https://go.example/*'',
        Fetch ''https://go.example/yourls-api.php'' [(''action'', ''stats'')]]"
proof -
  let ?u = "\<lparr>origin = ''https://go.example'', hostname = ''go.example'',
             pathname = ''/'', searchParams = []\<rparr>"
  let ?payload = "[(''action'', JStr ''stats'')]"
  have h1: "URL_new denied_platform ''https://go.example'' = Inr ?u" by code_simp
  have h2: "permissions_contains denied_platform (origin ?u @ ''/*'') = Inr False" by code_simp
  have o: "origin ?u @ ''/*'' = ''https://go.example/*''" by simp
  have h3: "Fetch ''https://go.example/yourls-api.php'' [(''action'', ''stats'')]
              \<in> set (fst (yourlsFetch example_platform ''https://go.example'' ?payload))"
    by code_simp
  have h4: "URL_new example_platform ''https://go.example'' = Inr ?u" by code_simp
  from yourlsFetch_permission_before_network
         [where p = denied_platform and baseUrl = "''https://go.example''" and u = ?u
            and payload = ?payload] h1 h2
  have c1: "yourlsFetch denied_platform ''https://go.example'' ?payload
              = ([PermissionsContains ''https://go.example/*''],
                 Inl (Error ''Host permission was not granted.''))"
    by simp
  from yourlsFetch_permission_before_network
         [where p = example_platform and baseUrl = "''https://go.example''"
            and payload = ?payload and ep = "''https://go.example/yourls-api.php''"
            and ps = "[(''action'', ''stats'')]"] h3 h4
  have c2: "permissions_contains example_platform ''https://go.example/*'' = Inr True \<and>
            fst (yourlsFetch example_platform ''https://go.example'' ?payload)
              = [PermissionsContains ''https://go.example/*'',
                 Fetch ''https://go.example/yourls-api.php'' [(''action'', ''stats'')]]"
    by auto
  from c1 c2 show ?thesis by simp
qed

section \<open>The Connectivity Check\<close>

text \<open>
  C8, as stated, fails: the check can throw to its caller. \<^verbatim>\<open>apiCheck\<close> awaits
  \<^verbatim>\<open>getSettings\<close> before its \<^verbatim>\<open>try\<close> block, and \<^verbatim>\<open>getSettings\<close> awaits the storage read
  without a \<^verbatim>\<open>catch\<close>, so when the storage read rejects, the promise of \<^verbatim>\<open>apiCheck\<close> is
  rejected with that error.
\<close>

theorem apiCheck_rejects_when_storage_fails:
  "getSettings broken_storage_platform = Inl (Error ''An unexpected error occurred'') \<and>
   apiCheck broken_storage_platform = ([], Inl (Error ''An unexpected error occurred''))"
  by code_simp

text \<open>
  C8, amended: for every invocation of the Connectivity Check whose settings are read:
  if the sanitized base URL or the API token is empty, the check returns \<^verbatim>\<open>{ok: false}\<close>
  with the no-settings message as the reason and nothing happens outside: no network
  call. And the check then never throws: its promise is fulfilled. When the API client
  throws (the URL constructor, the permission query, the network), the text of the
  exception is the reason of the failure, and that text is the message of the exception
  whenever the message is not empty.
\<close>

theorem apiCheck_captures_client_errors:
  assumes "getSettings p = Inr st"
  shows
  "(\<exists>v. snd (apiCheck p) = Inr v) \<and>
   (sanitizeBaseUrl p (yourlsUrl st) = [] \<or> \<not> js_truthy (apiSignature st)
      \<longrightarrow> apiCheck p = ([], Inr (JObj [(''ok'', JBool False),
                                        (''reason'', JStr (getMessage p ''errorNoSettings''))]))) \<and>
   (sanitizeBaseUrl p (yourlsUrl st) \<noteq> [] \<and> js_truthy (apiSignature st) \<and>
    yourlsFetch p (sanitizeBaseUrl p (yourlsUrl st))
      [(''action'', JStr ''stats''), (''format'', JStr ''json''),
       (''signature'', apiSignature st)] = (es, Inl e)
      \<longrightarrow> apiCheck p = (es, Inr (JObj [(''ok'', JBool False), (''reason'', JStr (error_text e))])) \<and>
          (message e \<noteq> [] \<longrightarrow> error_text e = message e))"
  using assms unfolding apiCheck_def Let_def error_text_def
  by (auto split: prod.splits sum.splits)

theorem apiCheck_captures_client_errors_witness:
  "apiCheck unconfigured_platform
     = ([], Inr (JObj [(''ok'', JBool False), (''reason'', JStr ''errorNoSettings'')])) \<and>
   apiCheck offline_platform
     = ([PermissionsContains ''https://go.example/*'',
         Fetch ''https://go.example/yourls-api.php''
           [(''action'', ''stats''), (''format'', ''json''), (''signature'', ''secret'')]],
        Inr (JObj [(''ok'', JBool False),
                   (''reason'', JStr ''NetworkError when attempting to fetch resource.'')]))"
proof -
  let ?es = "[PermissionsContains ''https://go.example/*'',
              Fetch ''https://go.example/yourls-api.php''
                [(''action'', ''stats''), (''format'', ''json''), (''signature'', ''secret'')]]"
  let ?e = "JsError ''TypeError'' ''NetworkError when attempting to fetch resource.''"
  let ?s0 = "\<lparr>yourlsUrl = JStr [], apiSignature = JStr [], autoCopy = True\<rparr>"
  let ?st = "\<lparr>yourlsUrl = JStr ''https://go.example/'', apiSignature = JStr ''secret'',
              autoCopy = True\<rparr>"
  have g1: "getSettings unconfigured_platform = Inr ?s0" by code_simp
  have h1: "sanitizeBaseUrl unconfigured_platform (yourlsUrl ?s0) = []"
    by code_simp
  have m1: "getMessage unconfigured_platform ''errorNoSettings'' = ''errorNoSettings''"
    by code_simp
  have g2: "getSettings offline_platform = Inr ?st" by code_simp
  have h2: "sanitizeBaseUrl offline_platform (yourlsUrl ?st) \<noteq> []"
    by code_simp
  have h3: "js_truthy (apiSignature ?st)"
    by code_simp
  have h4: "yourlsFetch offline_platform (sanitizeBaseUrl offline_platform (yourlsUrl ?st))
              [(''action'', JStr ''stats''), (''format'', JStr ''json''),
               (''signature'', apiSignature ?st)] = (?es, Inl ?e)"
    by code_simp
  have t: "error_text ?e = ''NetworkError when attempting to fetch resource.''"
    by code_simp
  from apiCheck_captures_client_errors[OF g1] h1 m1
  have c1: "apiCheck unconfigured_platform
     = ([], Inr (JObj [(''ok'', JBool False), (''reason'', JStr ''errorNoSettings'')]))"
    by simp
  from apiCheck_captures_client_errors[OF g2, where es = ?es and e = ?e] h2 h3 h4
  have "apiCheck offline_platform
          = (?es, Inr (JObj [(''ok'', JBool False), (''reason'', JStr (error_text ?e))]))"
    by blast
  with t c1 show ?thesis by simp
qed

section \<open>Single-link statistics\<close>

text \<open>
  C5: for every single-link statistics call that received a response: the status 404
  yields the not-found error whatever the body is; any other status outside 200 to 299
  yields the error \<^verbatim>\<open>HTTP\<close>, the status and, when the body is not empty, a colon and the
  first 100 code units of the body at most; a status from 200 to 299 returns what
  \<^verbatim>\<open>parseMaybeJson\<close> made of the body, as it is.
\<close>

theorem apiStats_normalization:
  assumes "getSettings p = Inr st"
    and "yourlsFetch p (sanitizeBaseUrl p (yourlsUrl st))
             [(''action'', JStr ''url-stats''), (''format'', JStr ''json''),
              (''signature'', apiSignature st),
              (''shorturl'', JStr (extractKeyword p (sanitizeBaseUrl p (yourlsUrl st)) s))]
           = (es, Inr f)"
  shows "apiStats p s =
     (es,
      if status (res f) = 404 then Inl (Error (getMessage p ''popupErrorStatsNotFound''))
      else if \<not> res_ok (res f)
        then Inl (Error (''HTTP '' @ string_of_nat (status (res f))
                    @ (if res_text f \<noteq> [] then '': '' @ take 100 (res_text f) else [])))
      else Inr (parseMaybeJson p (res_text f))) \<and>
     length (take 100 (res_text f)) \<le> 100"
  using assms yourlsFetch_Inr[OF assms(2)]
  unfolding apiStats_def Let_def http_error_text_def
  by (simp add: res_ok_def)

theorem apiStats_normalization_witness:
  \<open>apiStats (answering 404 ''{"message":"success: deleted"}'') (JStr ''https://go.example/abc123'')
     = ([PermissionsContains ''https://go.example/*'',
         Fetch ''https://go.example/yourls-api.php''
           [(''action'', ''url-stats''), (''format'', ''json''), (''signature'', ''secret''),
            (''shorturl'', ''abc123'')]],
        Inl (Error ''popupErrorStatsNotFound''))\<close>
proof -
  let ?p = \<open>answering 404 ''{"message":"success: deleted"}''\<close>
  let ?st = "\<lparr>yourlsUrl = JStr ''https://go.example/'', apiSignature = JStr ''secret'',
              autoCopy = True\<rparr>"
  let ?es = "[PermissionsContains ''https://go.example/*'',
              Fetch ''https://go.example/yourls-api.php''
                [(''action'', ''url-stats''), (''format'', ''json''), (''signature'', ''secret''),
                 (''shorturl'', ''abc123'')]]"
  let ?f = \<open>\<lparr>res = \<lparr>status = 404, body = Some ''{"message":"success: deleted"}''\<rparr>,
             res_text = ''{"message":"success: deleted"}'',
             json = JObj [(''message'', JStr ''success: deleted'')]\<rparr>\<close>
  have g: "getSettings ?p = Inr ?st" by code_simp
  have h: "yourlsFetch ?p (sanitizeBaseUrl ?p (yourlsUrl ?st))
             [(''action'', JStr ''url-stats''), (''format'', JStr ''json''),
              (''signature'', apiSignature ?st),
              (''shorturl'',
                 JStr (extractKeyword ?p (sanitizeBaseUrl ?p (yourlsUrl ?st))
                         (JStr ''https://go.example/abc123'')))]
           = (?es, Inr ?f)"
    by code_simp
  have m: "getMessage ?p ''popupErrorStatsNotFound'' = ''popupErrorStatsNotFound''"
    by code_simp
  from apiStats_normalization[OF g h] m show ?thesis by simp
qed

section \<open>Delete\<close>

text \<open>
  C4, as stated, fails for the Delete calls that end before a response arrives: they do
  not succeed, and their error is not the delete-failed error and carries no HTTP status.
  Without the host permission the call ends with the permission error after the
  permission query, and a candidate without a keyword (here the base URL itself) ends
  with the enter-a-keyword error before the API client is called.
\<close>

theorem apiDelete_fails_before_response:
  "apiDelete denied_platform (JStr ''abc'')
     = ([PermissionsContains ''https://go.example/*''],
        Inl (Error ''Host permission was not granted.'')) \<and>
   apiDelete example_platform (JStr ''https://go.example/'')
     = ([], Inl (Error ''errorEnterKeywordToDelete'')) \<and>
   \<not> prefix ''Delete failed'' ''Host permission was not granted.'' \<and>
   \<not> prefix ''Delete failed'' ''errorEnterKeywordToDelete''"
  by code_simp

text \<open>
  C4, amended: for every Delete call that sent its request and received a response (the
  settings are read, the keyword is not empty and the API client returns), the operation
  succeeds if and only if the response is ok and the parsed body is truthy and has the
  status \<^verbatim>\<open>success\<close>, or a message matching \<^verbatim>\<open>/success.*deleted/i\<close>, or the status code
  200; in every other such case it fails with the error \<^verbatim>\<open>Delete failed\<close> that carries the
  HTTP status and the message of the body or else its error field. No Delete call
  succeeds otherwise: a fulfilled promise is \<^verbatim>\<open>{ok: true}\<close> and comes from such a response.
\<close>

theorem apiDelete_normalization:
  "(getSettings p = Inr st \<and>
    extractKeyword p (sanitizeBaseUrl p (yourlsUrl st)) s \<noteq> [] \<and>
    yourlsFetch p (sanitizeBaseUrl p (yourlsUrl st))
      [(''action'', JStr ''delete''), (''format'', JStr ''json''),
       (''signature'', apiSignature st),
       (''shorturl'', JStr (extractKeyword p (sanitizeBaseUrl p (yourlsUrl st)) s))]
      = (es, Inr f)
    \<longrightarrow> apiDelete p s =
     (if res_ok (res f) \<and> js_truthy (json f) \<and>
         (js_get (json f) ''status'' = JStr ''success'' \<or>
          dotstar_ci ''success'' ''deleted''
            (js_ToString (js_or (js_get (json f) ''message'') (JStr []))) \<or>
          js_get (json f) ''statusCode'' = JNum ''200'')
      then (es @ [toast p ''toastUrlDeleted''], Inr (JObj [(''ok'', JBool True)]))
      else (es, Inl (Error (''Delete failed: HTTP '' @ string_of_nat (status (res f)) @ '' '' @
                (if js_truthy (js_get (json f) ''message'')
                 then ''- '' @ js_ToString (js_get (json f) ''message'')
                 else if js_truthy (js_get (json f) ''error'')
                 then ''- '' @ js_ToString (js_get (json f) ''error'')
                 else [])))))) \<and>
   (snd (apiDelete p s) = Inr v
    \<longrightarrow> v = JObj [(''ok'', JBool True)] \<and>
        (\<exists>st' es' f'.
           getSettings p = Inr st' \<and>
           extractKeyword p (sanitizeBaseUrl p (yourlsUrl st')) s \<noteq> [] \<and>
           yourlsFetch p (sanitizeBaseUrl p (yourlsUrl st'))
             [(''action'', JStr ''delete''), (''format'', JStr ''json''),
              (''signature'', apiSignature st'),
              (''shorturl'', JStr (extractKeyword p (sanitizeBaseUrl p (yourlsUrl st')) s))]
             = (es', Inr f') \<and>
           res_ok (res f') \<and> js_truthy (json f') \<and>
           (js_get (json f') ''status'' = JStr ''success'' \<or>
            dotstar_ci ''success'' ''deleted''
              (js_ToString (js_or (js_get (json f') ''message'') (JStr []))) \<or>
            js_get (json f') ''statusCode'' = JNum ''200'')))"
proof (intro conjI impI)
  assume "getSettings p = Inr st \<and>
    extractKeyword p (sanitizeBaseUrl p (yourlsUrl st)) s \<noteq> [] \<and>
    yourlsFetch p (sanitizeBaseUrl p (yourlsUrl st))
      [(''action'', JStr ''delete''), (''format'', JStr ''json''),
       (''signature'', apiSignature st),
       (''shorturl'', JStr (extractKeyword p (sanitizeBaseUrl p (yourlsUrl st)) s))]
      = (es, Inr f)"
  then show "apiDelete p s =
     (if res_ok (res f) \<and> js_truthy (json f) \<and>
         (js_get (json f) ''status'' = JStr ''success'' \<or>
          dotstar_ci ''success'' ''deleted''
            (js_ToString (js_or (js_get (json f) ''message'') (JStr []))) \<or>
          js_get (json f) ''statusCode'' = JNum ''200'')
      then (es @ [toast p ''toastUrlDeleted''], Inr (JObj [(''ok'', JBool True)]))
      else (es, Inl (Error (''Delete failed: HTTP '' @ string_of_nat (status (res f)) @ '' '' @
                (if js_truthy (js_get (json f) ''message'')
                 then ''- '' @ js_ToString (js_get (json f) ''message'')
                 else if js_truthy (js_get (json f) ''error'')
                 then ''- '' @ js_ToString (js_get (json f) ''error'')
                 else [])))))"
    unfolding apiDelete_def Let_def isSuccess_def
    by (simp add: js_or_def)
next
  assume a: "snd (apiDelete p s) = Inr v"
  then show "v = JObj [(''ok'', JBool True)]"
    unfolding apiDelete_def Let_def
    by (auto split: if_splits prod.splits sum.splits)
  from a show "\<exists>st' es' f'.
           getSettings p = Inr st' \<and>
           extractKeyword p (sanitizeBaseUrl p (yourlsUrl st')) s \<noteq> [] \<and>
           yourlsFetch p (sanitizeBaseUrl p (yourlsUrl st'))
             [(''action'', JStr ''delete''), (''format'', JStr ''json''),
              (''signature'', apiSignature st'),
              (''shorturl'', JStr (extractKeyword p (sanitizeBaseUrl p (yourlsUrl st')) s))]
             = (es', Inr f') \<and>
           res_ok (res f') \<and> js_truthy (json f') \<and>
           (js_get (json f') ''status'' = JStr ''success'' \<or>
            dotstar_ci ''success'' ''deleted''
              (js_ToString (js_or (js_get (json f') ''message'') (JStr []))) \<or>
            js_get (json f') ''statusCode'' = JNum ''200'')"
    unfolding apiDelete_def Let_def isSuccess_def
    by (auto split: if_splits prod.splits sum.splits)
qed

theorem apiDelete_normalization_witness:
  "apiDelete example_platform (JStr ''https://go.example/abc123'')
     = ([PermissionsContains ''https://go.example/*'',
         Fetch ''https://go.example/yourls-api.php''
           [(''action'', ''delete''), (''format'', ''json''), (''signature'', ''secret''),
            (''shorturl'', ''abc123'')],
         Notify ''extensionName'' ''toastUrlDeleted''],
        Inr (JObj [(''ok'', JBool True)])) \<and>
   apiDelete (answering 200 ''Access denied'') (JStr ''abc123'')
     = ([PermissionsContains ''https://go.example/*'',
         Fetch ''https://go.example/yourls-api.php''
           [(''action'', ''delete''), (''format'', ''json''), (''signature'', ''secret''),
            (''shorturl'', ''abc123'')]],
        Inl (Error ''Delete failed: HTTP 200 ''))"
proof -
  let ?p = example_platform
  let ?q = "answering 200 ''Access denied''"
  let ?st = "\<lparr>yourlsUrl = JStr ''https://go.example/'', apiSignature = JStr ''secret'',
              autoCopy = True\<rparr>"
  let ?es = "[PermissionsContains ''https://go.example/*'',
              Fetch ''https://go.example/yourls-api.php''
                [(''action'', ''delete''), (''format'', ''json''), (''signature'', ''secret''),
                 (''shorturl'', ''abc123'')]]"
  let ?f = \<open>\<lparr>res = \<lparr>status = 200, body = Some ''{"message":"success: deleted"}''\<rparr>,
             res_text = ''{"message":"success: deleted"}'',
             json = JObj [(''message'', JStr ''success: deleted'')]\<rparr>\<close>
  let ?g = "\<lparr>res = \<lparr>status = 200, body = Some ''Access denied''\<rparr>,
             res_text = ''Access denied'', json = JNull\<rparr>"
  have h1: "getSettings ?p = Inr ?st \<and>
    extractKeyword ?p (sanitizeBaseUrl ?p (yourlsUrl ?st))
              (JStr ''https://go.example/abc123'') \<noteq> [] \<and>
    yourlsFetch ?p (sanitizeBaseUrl ?p (yourlsUrl ?st))
      [(''action'', JStr ''delete''), (''format'', JStr ''json''),
       (''signature'', apiSignature ?st),
       (''shorturl'', JStr (extractKeyword ?p (sanitizeBaseUrl ?p (yourlsUrl ?st))
                              (JStr ''https://go.example/abc123'')))]
      = (?es, Inr ?f)"
    by code_simp
  have h2: "getSettings ?q = Inr ?st \<and>
    extractKeyword ?q (sanitizeBaseUrl ?q (yourlsUrl ?st)) (JStr ''abc123'') \<noteq> [] \<and>
    yourlsFetch ?q (sanitizeBaseUrl ?q (yourlsUrl ?st))
      [(''action'', JStr ''delete''), (''format'', JStr ''json''),
       (''signature'', apiSignature ?st),
       (''shorturl'', JStr (extractKeyword ?q (sanitizeBaseUrl ?q (yourlsUrl ?st))
                              (JStr ''abc123'')))]
      = (?es, Inr ?g)"
    by code_simp
  have e1: "(if res_ok (res ?f) \<and> js_truthy (json ?f) \<and>
         (js_get (json ?f) ''status'' = JStr ''success'' \<or>
          dotstar_ci ''success'' ''deleted''
            (js_ToString (js_or (js_get (json ?f) ''message'') (JStr []))) \<or>
          js_get (json ?f) ''statusCode'' = JNum ''200'')
      then (?es @ [toast ?p ''toastUrlDeleted''], Inr (JObj [(''ok'', JBool True)]))
      else (?es, Inl (Error (''Delete failed: HTTP '' @ string_of_nat (status (res ?f)) @ '' '' @
                (if js_truthy (js_get (json ?f) ''message'')
                 then ''- '' @ js_ToString (js_get (json ?f) ''message'')
                 else if js_truthy (js_get (json ?f) ''error'')
                 then ''- '' @ js_ToString (js_get (json ?f) ''error'')
                 else [])))))
     = (?es @ [Notify ''extensionName'' ''toastUrlDeleted''], Inr (JObj [(''ok'', JBool True)]))"
    by code_simp
  have e2: "(if res_ok (res ?g) \<and> js_truthy (json ?g) \<and>
         (js_get (json ?g) ''status'' = JStr ''success'' \<or>
          dotstar_ci ''success'' ''deleted''
            (js_ToString (js_or (js_get (json ?g) ''message'') (JStr []))) \<or>
          js_get (json ?g) ''statusCode'' = JNum ''200'')
      then (?es @ [toast ?q ''toastUrlDeleted''], Inr (JObj [(''ok'', JBool True)]))
      else (?es, Inl (Error (''Delete failed: HTTP '' @ string_of_nat (status (res ?g)) @ '' '' @
                (if js_truthy (js_get (json ?g) ''message'')
                 then ''- '' @ js_ToString (js_get (json ?g) ''message'')
                 else if js_truthy (js_get (json ?g) ''error'')
                 then ''- '' @ js_ToString (js_get (json ?g) ''error'')
                 else [])))))
     = (?es, Inl (Error ''Delete failed: HTTP 200 ''))"
    by code_simp
  from apiDelete_normalization[where p = ?p and st = ?st
         and s = "JStr ''https://go.example/abc123''" and es = ?es and f = ?f] h1
  have c1: "apiDelete ?p (JStr ''https://go.example/abc123'')
             = (?es @ [Notify ''extensionName'' ''toastUrlDeleted''], Inr (JObj [(''ok'', JBool True)]))"
    unfolding e1 by blast
  from apiDelete_normalization[where p = ?q and st = ?st and s = "JStr ''abc123''"
         and es = ?es and f = ?g] h2
  have c2: "apiDelete ?q (JStr ''abc123'') = (?es, Inl (Error ''Delete failed: HTTP 200 ''))"
    unfolding e2 by blast
  from c1 c2 show ?thesis by simp
qed

section \<open>Shorten\<close>

text \<open>
  C1: for every Shorten call whose response carries a truthy JSON value with a message
  that contains \<^verbatim>\<open>already exists\<close>, letters compared without case, the operation returns
  \<^verbatim>\<open>{ok: true, shortUrl, already: true}\<close> whatever the HTTP status is. The short URL is
  group 1 of \<^verbatim>\<open>/\(short URL: (https?:\/\/\S+)\)/i\<close> in the message when that matches;
  otherwise it is \<^verbatim>\<open>json.shorturl\<close>, else \<^verbatim>\<open>json.url.shorturl\<close>, else
  \<^verbatim>\<open>json.link.shorturl\<close>, else the base URL, a slash and \<^verbatim>\<open>json.keyword\<close>, else \<^verbatim>\<open>null\<close>.
  A call has a response only when the settings are read and present, which the
  hypotheses say.
\<close>

theorem apiShorten_already_exists:
  assumes "getSettings p = Inr st"
    and "sanitizeBaseUrl p (yourlsUrl st) \<noteq> []"
    and "js_truthy (apiSignature st)"
    and "yourlsFetch p (sanitizeBaseUrl p (yourlsUrl st))
           ([(''action'', JStr ''shorturl''), (''format'', JStr ''json''),
             (''signature'', apiSignature st), (''url'', longUrl)]
            @ (if js_truthy keyword then [(''keyword'', keyword)] else [])
            @ (if js_truthy title then [(''title'', title)] else []))
         = (es, Inr f)"
    and "js_truthy (json f)"
    and "contains_ci ''already exists''
           (js_ToString (js_or (js_get (json f) ''message'') (JStr [])))"
  shows "apiShorten p longUrl keyword title =
     (es @ [toast p ''toastUrlExists''],
      Inr (JObj [(''ok'', JBool True),
                 (''shortUrl'',
                    (case short_url_match (js_ToString (js_get (json f) ''message'')) of
                       Some m \<Rightarrow> JStr m
                     | None \<Rightarrow>
                         if js_truthy (js_get (json f) ''shorturl'')
                           then js_get (json f) ''shorturl''
                         else if js_truthy (js_get (js_get (json f) ''url'') ''shorturl'')
                           then js_get (js_get (json f) ''url'') ''shorturl''
                         else if js_truthy (js_get (js_get (json f) ''link'') ''shorturl'')
                           then js_get (js_get (json f) ''link'') ''shorturl''
                         else if js_truthy (js_get (json f) ''keyword'')
                           then JStr (strip_trailing_slashes (sanitizeBaseUrl p (yourlsUrl st))
                                      @ ''/'' @ js_ToString (js_get (json f) ''keyword''))
                         else JNull)),
                 (''already'', JBool True)]))"
  using assms
  unfolding apiShorten_def Let_def extractShort_def
  by (simp split: option.splits)

theorem apiShorten_already_exists_witness:
  \<open>apiShorten
     (answering 400
        ''{"status":"fail","message":"short URL already exists (short URL: https://go.example/xyz)"}'')
     (JStr ''https://example.com/page'') (JStr []) (JStr [])
   = ([PermissionsContains ''https://go.example/*'',
       Fetch ''https://go.example/yourls-api.php''
         [(''action'', ''shorturl''), (''format'', ''json''), (''signature'', ''secret''),
          (''url'', ''https://example.com/page'')],
       Notify ''extensionName'' ''toastUrlExists''],
      Inr (JObj [(''ok'', JBool True), (''shortUrl'', JStr ''https://go.example/xyz''),
                 (''already'', JBool True)]))\<close>
proof -
  let ?t = \<open>''{"status":"fail","message":"short URL already exists (short URL: https://go.example/xyz)"}''\<close>
  let ?p = "answering 400 ?t"
  let ?st = "\<lparr>yourlsUrl = JStr ''https://go.example/'', apiSignature = JStr ''secret'',
              autoCopy = True\<rparr>"
  let ?es = "[PermissionsContains ''https://go.example/*'',
              Fetch ''https://go.example/yourls-api.php''
                [(''action'', ''shorturl''), (''format'', ''json''), (''signature'', ''secret''),
                 (''url'', ''https://example.com/page'')]]"
  let ?j = "JObj [(''status'', JStr ''fail''),
                  (''message'', JStr ''short URL already exists (short URL: https://go.example/xyz)'')]"
  let ?f = "\<lparr>res = \<lparr>status = 400, body = Some ?t\<rparr>, res_text = ?t, json = ?j\<rparr>"
  have h0: "getSettings ?p = Inr ?st" by code_simp
  have h1: "sanitizeBaseUrl ?p (yourlsUrl ?st) \<noteq> []" by code_simp
  have h2: "js_truthy (apiSignature ?st)" by code_simp
  have h3: "yourlsFetch ?p (sanitizeBaseUrl ?p (yourlsUrl ?st))
           ([(''action'', JStr ''shorturl''), (''format'', JStr ''json''),
             (''signature'', apiSignature ?st), (''url'', JStr ''https://example.com/page'')]
            @ (if js_truthy (JStr []) then [(''keyword'', JStr [])] else [])
            @ (if js_truthy (JStr []) then [(''title'', JStr [])] else []))
         = (?es, Inr ?f)"
    by code_simp
  have h4: "js_truthy (json ?f)" by simp
  have h5: "contains_ci ''already exists''
              (js_ToString (js_or (js_get (json ?f) ''message'') (JStr [])))"
    by code_simp
  have m: "short_url_match (js_ToString (js_get (json ?f) ''message''))
             = Some ''https://go.example/xyz''"
    by code_simp
  have t: "toast ?p ''toastUrlExists'' = Notify ''extensionName'' ''toastUrlExists''"
    by code_simp
  from apiShorten_already_exists[OF h0 h1 h2 h3 h4 h5] m t show ?thesis by simp
qed

section \<open>The Action Router\<close>

lemma onMessage_Inr: "\<exists>v. snd (onMessage p msg) = Inr v"
  unfolding onMessage_def Let_def
  by (auto split: prod.splits sum.splits)

lemma dispatch_unknown:
  assumes "msg \<noteq> JUndefined" "msg \<noteq> JNull"
    and "js_get msg ''type'' \<notin> {JStr ''CHECK_CONNECTION'', JStr ''SHORTEN_URL'', JStr ''GET_STATS'',
                                 JStr ''DELETE_SHORTURL'', JStr ''GET_DB_STATS''}"
  shows "dispatch p msg = ([], Inr (fail_envelope ''Unknown message type''))"
  using assms unfolding dispatch_def Let_def by simp

lemma onMessage_of_dispatch_error:
  "dispatch p msg = (es, Inl e) \<Longrightarrow> \<not> dotstar_ci ''keyword'' ''already exists'' (error_text e)
   \<Longrightarrow> onMessage p msg = (es, Inr (fail_envelope (error_text e)))"
  by (simp add: onMessage_def)

text \<open>
  C6: for every request, the listener never throws: its promise is always fulfilled.
  Every exception of the pipeline becomes the envelope \<^verbatim>\<open>{ok: false, reason}\<close> whose reason
  is the text of the exception, except that a text matching \<^verbatim>\<open>/keyword.*already exists/i\<close>
  is replaced by the keyword-exists message. A request whose type is none of the five
  known ones yields the envelope with the reason \<^verbatim>\<open>Unknown message type\<close>.
\<close>

theorem onMessage_never_throws:
  "(\<exists>v. snd (onMessage p msg) = Inr v) \<and>
   (dispatch p msg = (es, Inl e)
      \<longrightarrow> onMessage p msg =
            (es, Inr (JObj [(''ok'', JBool False),
                            (''reason'',
                               JStr (if dotstar_ci ''keyword'' ''already exists'' (error_text e)
                                     then getMessage p ''errorKeywordExists''
                                     else error_text e))]))) \<and>
   (msg \<noteq> JUndefined \<and> msg \<noteq> JNull \<and>
    js_get msg ''type'' \<notin> {JStr ''CHECK_CONNECTION'', JStr ''SHORTEN_URL'', JStr ''GET_STATS'',
                             JStr ''DELETE_SHORTURL'', JStr ''GET_DB_STATS''}
      \<longrightarrow> onMessage p msg =
            ([], Inr (JObj [(''ok'', JBool False), (''reason'', JStr ''Unknown message type'')])))"
proof (intro conjI impI)
  show "\<exists>v. snd (onMessage p msg) = Inr v" by (rule onMessage_Inr)
next
  assume "dispatch p msg = (es, Inl e)"
  then show "onMessage p msg =
            (es, Inr (JObj [(''ok'', JBool False),
                            (''reason'',
                               JStr (if dotstar_ci ''keyword'' ''already exists'' (error_text e)
                                     then getMessage p ''errorKeywordExists''
                                     else error_text e))]))"
    by (simp add: onMessage_def Let_def fail_envelope_def)
next
  assume "msg \<noteq> JUndefined \<and> msg \<noteq> JNull \<and>
    js_get msg ''type'' \<notin> {JStr ''CHECK_CONNECTION'', JStr ''SHORTEN_URL'', JStr ''GET_STATS'',
                             JStr ''DELETE_SHORTURL'', JStr ''GET_DB_STATS''}"
  then have "dispatch p msg = ([], Inr (fail_envelope ''Unknown message type''))"
    using dispatch_unknown[of msg p] by blast
  then show "onMessage p msg =
            ([], Inr (JObj [(''ok'', JBool False), (''reason'', JStr ''Unknown message type'')]))"
    by (simp add: onMessage_def fail_envelope_def)
qed

theorem onMessage_never_throws_witness:
  "onMessage example_platform (JObj [(''type'', JStr ''RENAME_SHORTURL'')])
     = ([], Inr (JObj [(''ok'', JBool False), (''reason'', JStr ''Unknown message type'')])) \<and>
   onMessage (answering 400 ''Keyword abc already exists'')
       (JObj [(''type'', JStr ''SHORTEN_URL''), (''longUrl'', JStr ''https://example.com/page''),
              (''keyword'', JStr ''abc'')])
     = ([PermissionsContains ''https://go.example/*'',
         Fetch ''https://go.example/yourls-api.php''
           [(''action'', ''shorturl''), (''format'', ''json''), (''signature'', ''secret''),
            (''url'', ''https://example.com/page''), (''keyword'', ''abc'')]],
        Inr (JObj [(''ok'', JBool False), (''reason'', JStr ''errorKeywordExists'')])) \<and>
   onMessage denied_platform (JObj [(''type'', JStr ''GET_DB_STATS'')])
     = ([PermissionsContains ''https://go.example/*''],
        Inr (JObj [(''ok'', JBool False), (''reason'', JStr ''Host permission was not granted.'')]))"
proof -
  let ?q = "answering 400 ''Keyword abc already exists''"
  let ?m = "JObj [(''type'', JStr ''SHORTEN_URL''), (''longUrl'', JStr ''https://example.com/page''),
                  (''keyword'', JStr ''abc'')]"
  let ?es = "[PermissionsContains ''https://go.example/*'',
              Fetch ''https://go.example/yourls-api.php''
                [(''action'', ''shorturl''), (''format'', ''json''), (''signature'', ''secret''),
                 (''url'', ''https://example.com/page''), (''keyword'', ''abc'')]]"
  let ?e = "Error ''HTTP 400: Keyword abc already exists''"
  let ?d = "Error ''Host permission was not granted.''"
  have h1: "JObj [(''type'', JStr ''RENAME_SHORTURL'')] \<noteq> JUndefined \<and>
            JObj [(''type'', JStr ''RENAME_SHORTURL'')] \<noteq> JNull \<and>
            js_get (JObj [(''type'', JStr ''RENAME_SHORTURL'')]) ''type''
              \<notin> {JStr ''CHECK_CONNECTION'', JStr ''SHORTEN_URL'', JStr ''GET_STATS'',
                  JStr ''DELETE_SHORTURL'', JStr ''GET_DB_STATS''}"
    by simp
  have h2: "dispatch ?q ?m = (?es, Inl ?e)" by code_simp
  have r2: "(if dotstar_ci ''keyword'' ''already exists'' (error_text ?e)
             then getMessage ?q ''errorKeywordExists'' else error_text ?e) = ''errorKeywordExists''"
    by code_simp
  have h3: "dispatch denied_platform (JObj [(''type'', JStr ''GET_DB_STATS'')])
              = ([PermissionsContains ''https://go.example/*''], Inl ?d)"
    by code_simp
  have r3: "(if dotstar_ci ''keyword'' ''already exists'' (error_text ?d)
             then getMessage denied_platform ''errorKeywordExists'' else error_text ?d)
            = ''Host permission was not granted.''"
    by code_simp
  from onMessage_never_throws[where p = example_platform
         and msg = "JObj [(''type'', JStr ''RENAME_SHORTURL'')]"] h1
  have c1: "onMessage example_platform (JObj [(''type'', JStr ''RENAME_SHORTURL'')])
     = ([], Inr (JObj [(''ok'', JBool False), (''reason'', JStr ''Unknown message type'')]))"
    by blast
  from onMessage_never_throws[where p = ?q and msg = ?m and es = ?es and e = ?e] h2
  have c2: "onMessage ?q ?m
     = (?es, Inr (JObj [(''ok'', JBool False), (''reason'', JStr ''errorKeywordExists'')]))"
    unfolding r2 by blast
  from onMessage_never_throws[where p = denied_platform
         and msg = "JObj [(''type'', JStr ''GET_DB_STATS'')]"
         and es = "[PermissionsContains ''https://go.example/*'']" and e = ?d] h3
  have c3: "onMessage denied_platform (JObj [(''type'', JStr ''GET_DB_STATS'')])
     = ([PermissionsContains ''https://go.example/*''],
        Inr (JObj [(''ok'', JBool False), (''reason'', JStr ''Host permission was not granted.'')]))"
    unfolding r3 by blast
  from c1 c2 c3 show ?thesis by simp
qed

section \<open>Missing settings\<close>

text \<open>
  C10, as stated, fails for a Delete request without a keyword: \<^verbatim>\<open>apiDelete\<close> tests the
  keyword before it calls the API client, so with an empty base URL and an empty keyword
  the reason is the enter-a-keyword message and no URL is constructed.
\<close>

theorem delete_without_keyword_stops_before_client:
  "getSettings unconfigured_platform
     = Inr \<lparr>yourlsUrl = JStr [], apiSignature = JStr [], autoCopy = True\<rparr> \<and>
   sanitizeBaseUrl unconfigured_platform (JStr []) = [] \<and>
   URL_new unconfigured_platform []
     = Inl (JsError ''TypeError'' ''URL constructor:  is not a valid URL.'') \<and>
   apiDelete unconfigured_platform (JStr [])
     = ([], Inl (Error ''errorEnterKeywordToDelete'')) \<and>
   onMessage unconfigured_platform
       (JObj [(''type'', JStr ''DELETE_SHORTURL''), (''shortUrl'', JStr [])])
     = ([], Inr (JObj [(''ok'', JBool False), (''reason'', JStr ''errorEnterKeywordToDelete'')]))"
  by code_simp

text \<open>
  C10, amended: only Shorten and the Connectivity Check test for missing settings (they
  answer with the no-settings message and call nothing). For every GetDbStats request,
  every GetLinkStats request and every Delete request with a non-empty keyword, when the
  settings are read and the sanitized base URL is empty the pipeline goes into the API
  client, where the URL
  constructor rejects the empty string; nothing else happens, and the reason the caller
  receives is the text of that exception (a text the keyword-exists rewrite of the
  router does not match).
\<close>

theorem empty_base_reaches_URL_constructor:
  assumes "getSettings p = Inr st"
    and "sanitizeBaseUrl p (yourlsUrl st) = []"
    and "URL_new p [] = Inl e"
    and "\<not> dotstar_ci ''keyword'' ''already exists'' (error_text e)"
  shows "onMessage p (JObj [(''type'', JStr ''GET_DB_STATS'')])
           = ([], Inr (JObj [(''ok'', JBool False), (''reason'', JStr (error_text e))])) \<and>
         onMessage p (JObj [(''type'', JStr ''GET_STATS''), (''shortUrl'', s)])
           = ([], Inr (JObj [(''ok'', JBool False), (''reason'', JStr (error_text e))])) \<and>
         (extractKeyword p [] s \<noteq> [] \<longrightarrow>
          onMessage p (JObj [(''type'', JStr ''DELETE_SHORTURL''), (''shortUrl'', s)])
           = ([], Inr (JObj [(''ok'', JBool False), (''reason'', JStr (error_text e))]))) \<and>
         apiShorten p longUrl keyword title = ([], Inl (Error (getMessage p ''errorNoSettings''))) \<and>
         apiCheck p = ([], Inr (JObj [(''ok'', JBool False),
                                      (''reason'', JStr (getMessage p ''errorNoSettings''))]))"
proof -
  have db: "dispatch p (JObj [(''type'', JStr ''GET_DB_STATS'')]) = ([], Inl e)"
    using assms(1,2) yourlsFetch_empty_base[OF assms(3)]
    by (simp add: dispatch_def apiDbStats_def Let_def)
  have gs: "dispatch p (JObj [(''type'', JStr ''GET_STATS''), (''shortUrl'', s)]) = ([], Inl e)"
    using assms(1,2) yourlsFetch_empty_base[OF assms(3)]
    by (simp add: dispatch_def apiStats_def Let_def)
  have de: "extractKeyword p [] s \<noteq> [] \<Longrightarrow>
      dispatch p (JObj [(''type'', JStr ''DELETE_SHORTURL''), (''shortUrl'', s)]) = ([], Inl e)"
    using assms(1,2) yourlsFetch_empty_base[OF assms(3)]
    by (simp add: dispatch_def apiDelete_def Let_def)
  have sh: "apiShorten p longUrl keyword title = ([], Inl (Error (getMessage p ''errorNoSettings'')))"
    using assms(1,2) by (simp add: apiShorten_def Let_def)
  have ch: "apiCheck p = ([], Inr (JObj [(''ok'', JBool False),
                                      (''reason'', JStr (getMessage p ''errorNoSettings''))]))"
    using assms(1,2) by (simp add: apiCheck_def Let_def)
  show ?thesis
    using onMessage_of_dispatch_error[OF db assms(4)] onMessage_of_dispatch_error[OF gs assms(4)]
      onMessage_of_dispatch_error[OF de assms(4)] sh ch
    by (simp add: fail_envelope_def)
qed

theorem empty_base_reaches_URL_constructor_witness:
  "onMessage unconfigured_platform (JObj [(''type'', JStr ''GET_DB_STATS'')])
     = ([], Inr (JObj [(''ok'', JBool False),
                       (''reason'', JStr ''URL constructor:  is not a valid URL.'')])) \<and>
   onMessage unconfigured_platform (JObj [(''type'', JStr ''GET_STATS''), (''shortUrl'', JStr ''abc'')])
     = ([], Inr (JObj [(''ok'', JBool False),
                       (''reason'', JStr ''URL constructor:  is not a valid URL.'')])) \<and>
   onMessage unconfigured_platform
       (JObj [(''type'', JStr ''DELETE_SHORTURL''), (''shortUrl'', JStr ''abc'')])
     = ([], Inr (JObj [(''ok'', JBool False),
                       (''reason'', JStr ''URL constructor:  is not a valid URL.'')]))"
proof -
  let ?p = unconfigured_platform
  let ?e = "JsError ''TypeError'' ''URL constructor:  is not a valid URL.''"
  let ?st = "\<lparr>yourlsUrl = JStr [], apiSignature = JStr [], autoCopy = True\<rparr>"
  have h0: "getSettings ?p = Inr ?st" by code_simp
  have h1: "sanitizeBaseUrl ?p (yourlsUrl ?st) = []" by code_simp
  have h2: "URL_new ?p [] = Inl ?e" by code_simp
  have h3: "\<not> dotstar_ci ''keyword'' ''already exists'' (error_text ?e)" by code_simp
  have k: "extractKeyword ?p [] (JStr ''abc'') \<noteq> []" by code_simp
  have t: "error_text ?e = ''URL constructor:  is not a valid URL.''" by code_simp
  from empty_base_reaches_URL_constructor[OF h0 h1 h2 h3, where s = "JStr ''abc''"] k t
  show ?thesis by simp
qed

end
